theory Spec2Isabelle
  imports Complex_Main "HOL-Library.Char_ord" "HOL-Library.List_Lexorder" "HOL-Library.Multiset"
begin

section \<open>Data model\<close>

text \<open>
  The program is a single script, \<^verbatim>\<open>app.py\<close>, over the pandas dataframe library.
  A dataframe is modelled as the list of its rows, a row as a record with one field per
  column, in the column order that \<^verbatim>\<open>load_data\<close> assigns. A missing value (pandas
  \<^verbatim>\<open>NaN\<close>, \<^verbatim>\<open>NaT\<close>) is \<open>None\<close>.

  Strings are byte lists holding the UTF-8 encoding of the Python string; two Python
  strings are equal exactly when their encodings are, and the order of the encodings is
  the code point order that Python uses.

  A \<^verbatim>\<open>Timestamp\<close> is the number of seconds since 1970-01-01 00:00:00 (pandas keeps
  nanoseconds; the date format of \<^verbatim>\<open>load_data\<close> has a resolution of one second), a
  \<^verbatim>\<open>Timedelta\<close> a number of seconds.

  Amounts are rationals: the sums below are exact, where pandas adds 64-bit floats and
  rounds.
\<close>

type_synonym Timestamp = int
type_synonym Timedelta = int

record donation =
  Organization :: "string option"
  Campaign :: "string option"
  DonationDate :: "Timestamp option"
  FirstName :: "string option"
  LastName :: "string option"
  AmountEUR :: "rat option"
  Frequency :: "string option"
  PaymentVS :: "string option"
  PaymentStatus :: "string option"
  Email :: "string option"
  PaymentGateway :: "string option"
  PaymentMethod :: "string option"
  IsAnonymous :: "bool option"
  AltLinkName :: "string option"
  Source :: "string option"
  DonorType :: "string option"

type_synonym DataFrame = "donation list"

text \<open>The exceptions that the script can raise, all of them from pandas.\<close>

datatype error = UnicodeDecodeError | ParserError | EmptyDataError | ValueError

section \<open>The pandas operations that the script calls\<close>

text \<open>\<^verbatim>\<open>Series.dropna\<close>: the present values, in order.\<close>

fun dropna :: "'a option list \<Rightarrow> 'a list" where
  "dropna [] = []"
| "dropna (None # xs) = dropna xs"
| "dropna (Some x # xs) = x # dropna xs"

text \<open>\<^verbatim>\<open>Series.sum()\<close>: missing values are skipped, the empty sum is 0.\<close>

definition series_sum :: "rat option list \<Rightarrow> rat" where
  "series_sum xs = sum_list (dropna xs)"

text \<open>\<^verbatim>\<open>Series.count()\<close>: the number of present values.\<close>

definition series_count :: "'a option list \<Rightarrow> nat" where
  "series_count xs = length (dropna xs)"

text \<open>\<^verbatim>\<open>Series.max()\<close> and \<^verbatim>\<open>Series.min()\<close>: missing values are skipped; the
  result is missing when no value is present.\<close>

definition series_max :: "int option list \<Rightarrow> int option" where
  "series_max xs = (case dropna xs of [] \<Rightarrow> None | y # ys \<Rightarrow> Some (fold max ys y))"

definition series_min :: "int option list \<Rightarrow> int option" where
  "series_min xs = (case dropna xs of [] \<Rightarrow> None | y # ys \<Rightarrow> Some (fold min ys y))"

text \<open>
  \<^verbatim>\<open>DataFrame.groupby(key)\<close> with the defaults \<^verbatim>\<open>sort=True, dropna=True\<close>: one
  group per distinct present key, the keys in ascending order, each group holding the rows
  of that key in their original order. Rows whose key is missing belong to no group.
\<close>

definition groupby :: "('r \<Rightarrow> 'k::linorder option) \<Rightarrow> 'r list \<Rightarrow> ('k \<times> 'r list) list" where
  "groupby key df =
     map (\<lambda>k. (k, filter (\<lambda>r. key r = Some k) df)) (sort (remdups (dropna (map key df))))"

text \<open>
  \<^verbatim>\<open>Series.sort_values()\<close> on a series of (label, value) pairs. Insertion sort is
  stable; pandas sorts with quicksort and leaves the order of equal values open, so
  nothing below depends on how ties are broken.
\<close>

definition sort_values :: "('k \<times> 'v::linorder) list \<Rightarrow> ('k \<times> 'v) list" where
  "sort_values s = sort_key snd s"

definition sort_values_desc :: "('k \<times> 'v::linorder) list \<Rightarrow> ('k \<times> 'v) list" where
  "sort_values_desc s = rev (sort_key snd (rev s))"

text \<open>\<^verbatim>\<open>head(n)\<close> and \<^verbatim>\<open>tail(n)\<close>: the first and the last \<open>n\<close> entries.\<close>

definition head :: "nat \<Rightarrow> 'a list \<Rightarrow> 'a list" where
  "head n xs = take n xs"

definition tail :: "nat \<Rightarrow> 'a list \<Rightarrow> 'a list" where
  "tail n xs = drop (length xs - n) xs"

text \<open>
  \<^verbatim>\<open>Series.value_counts()\<close>: the number of occurrences of each present value, the
  most frequent first.
\<close>

definition value_counts :: "'a option list \<Rightarrow> ('a \<times> nat) list" where
  "value_counts xs =
     sort_values_desc (map (\<lambda>v. (v, length (filter (\<lambda>x. x = Some v) xs)))
                           (rev (remdups (rev (dropna xs)))))"

subsection \<open>Calendar\<close>

text \<open>
  The month of a timestamp in the proleptic Gregorian calendar, as the index
  \<open>12 * year + (month - 1)\<close>: the day number is turned into a civil date by the
  usual era / day-of-era computation.
\<close>

definition civil_from_days :: "int \<Rightarrow> int \<times> int \<times> int" where
  "civil_from_days z0 =
     (let z = z0 + 719468;
          era = z div 146097;
          doe = z - era * 146097;
          yoe = (doe - doe div 1460 + doe div 36524 - doe div 146096) div 365;
          y = yoe + era * 400;
          doy = doe - (365 * yoe + yoe div 4 - yoe div 100);
          mp = (5 * doy + 2) div 153;
          d = doy - (153 * mp + 2) div 5 + 1;
          m = (if mp < 10 then mp + 3 else mp - 9)
      in (if m \<le> 2 then y + 1 else y, m, d))"

definition month_of :: "Timestamp \<Rightarrow> int" where
  "month_of t = (case civil_from_days (t div 86400) of (y, m, d) \<Rightarrow> 12 * y + (m - 1))"

text \<open>\<^verbatim>\<open>strftime('%Y-%m')\<close> of a month, for years 0 to 9999.\<close>

definition digit :: "int \<Rightarrow> char" where
  "digit n = ''0123456789'' ! nat (n mod 10)"

definition strftime_Ym :: "int \<Rightarrow> string" where
  "strftime_Ym k =
     (let y = k div 12; m = k mod 12 + 1
      in [digit (y div 1000), digit (y div 100), digit (y div 10), digit y, CHR ''-'',
          digit (m div 10), digit m])"

text \<open>
  \<^verbatim>\<open>Series.resample("ME").sum()\<close> on a series indexed by timestamps: one bin per
  calendar month from the month of the earliest timestamp to the month of the latest one,
  months without rows included; the value of a bin is the sum of the present values of
  its rows. Rows without a timestamp fall in no bin. When the series has rows and none
  has a timestamp, there is no range of months to build, and pandas raises.
\<close>

definition resample_ME_sum :: "(Timestamp option \<times> rat option) list \<Rightarrow> error + (int \<times> rat) list" where
  "resample_ME_sum s =
     (if s = [] then Inr []
      else let months = map (map_option month_of \<circ> fst) s
           in case (series_min months, series_max months) of
                (Some lo, Some hi) \<Rightarrow>
                  Inr (map (\<lambda>k. (k, series_sum (map snd
                              (filter (\<lambda>(t, a). map_option month_of t = Some k) s))))
                           [lo..hi])
              | _ \<Rightarrow> Inl ValueError)"

section \<open>The aggregates of the dashboard\<close>

text \<open>The value of the column \<^verbatim>\<open>PaymentStatus\<close> that marks a successful payment,
  \<^verbatim>\<open>'Uspesna'\<close> with its diacritics, in UTF-8.\<close>

definition Uspesna :: string where
  "Uspesna = [CHR 0xC3, CHR 0x9A, CHR ''s'', CHR ''p'', CHR ''e'', CHR 0xC5, CHR 0xA1,
              CHR ''n'', CHR 0xC3, CHR 0xA1]"

definition monthly_donations :: "DataFrame \<Rightarrow> error + (string \<times> rat) list" where
  "monthly_donations df =
     (case resample_ME_sum (map (\<lambda>r. (DonationDate r, AmountEUR r)) df) of
        Inl e \<Rightarrow> Inl e
      | Inr bins \<Rightarrow> Inr (map (\<lambda>(k, v). (strftime_Ym k, v)) bins))"

definition groupby_sum :: "(donation \<Rightarrow> string option) \<Rightarrow> DataFrame \<Rightarrow> (string \<times> rat) list" where
  "groupby_sum key df = map (\<lambda>(k, g). (k, series_sum (map AmountEUR g))) (groupby key df)"

definition campaign_totals :: "DataFrame \<Rightarrow> (string \<times> rat) list" where
  "campaign_totals df = sort_values_desc (groupby_sum Campaign df)"

definition top_5 :: "DataFrame \<Rightarrow> (string \<times> rat) list" where
  "top_5 df = sort_values (head 5 (campaign_totals df))"

definition bottom_5 :: "DataFrame \<Rightarrow> (string \<times> rat) list" where
  "bottom_5 df = sort_values (tail 5 (campaign_totals df))"

definition freq_counts :: "DataFrame \<Rightarrow> (string \<times> nat) list" where
  "freq_counts df = value_counts (map Frequency df)"

definition donor_counts :: "DataFrame \<Rightarrow> (string \<times> nat) list" where
  "donor_counts df = value_counts (map DonorType df)"

definition donation_sums :: "DataFrame \<Rightarrow> (string \<times> rat) list" where
  "donation_sums df = sort_values_desc (groupby_sum DonorType df)"

subsection \<open>RFM\<close>

record rfm_row =
  rfm_Email :: string
  Recency_days :: "int option"
  rfm_Frequency :: nat
  Monetary_EUR :: rat

text \<open>\<^verbatim>\<open>df[df['PaymentStatus'] == 'Uspesna']\<close>\<close>

definition successful :: "DataFrame \<Rightarrow> DataFrame" where
  "successful df = filter (\<lambda>r. PaymentStatus r = Some Uspesna) df"

text \<open>\<^verbatim>\<open>today = df['DonationDate'].max() + pd.Timedelta(days=1)\<close>\<close>

definition today :: "DataFrame \<Rightarrow> Timestamp option" where
  "today df = map_option (\<lambda>t. t + 86400) (series_max (map DonationDate df))"

text \<open>\<^verbatim>\<open>lambda x: (today - x.max()).days\<close>; the difference with a missing timestamp is
  missing.\<close>

definition recency :: "Timestamp option \<Rightarrow> Timestamp option list \<Rightarrow> int option" where
  "recency td x =
     (case (td, series_max x) of
        (Some t, Some m) \<Rightarrow> Some ((t - m) div 86400)
      | _ \<Rightarrow> None)"

definition rfm_agg :: "DataFrame \<Rightarrow> rfm_row list" where
  "rfm_agg df =
     map (\<lambda>(e, g). \<lparr>rfm_Email = e,
                     Recency_days = recency (today df) (map DonationDate g),
                     rfm_Frequency = series_count (map Email g),
                     Monetary_EUR = series_sum (map AmountEUR g)\<rparr>)
         (groupby Email df)"

definition rfm :: "DataFrame \<Rightarrow> rfm_row list" where
  "rfm df = rfm_agg (successful df)"

section \<open>Loading the uploaded file\<close>

subsection \<open>\<^verbatim>\<open>pd.read_csv(uploaded_file, sep=";")\<close>\<close>

text \<open>
  The upload is a stream of bytes. \<^verbatim>\<open>read_csv\<close> decodes it as UTF-8, strictly: a
  byte sequence that is no UTF-8 (an export in a one-byte code page that holds a letter
  with a diacritic, say) raises \<^verbatim>\<open>UnicodeDecodeError\<close>. Well-formed UTF-8 has no
  overlong forms, no surrogates and no code point above U+10FFFF.

  pandas reads and decodes the stream in blocks of 262144 characters, each block before
  it is tokenized; below the file is decoded as a whole before it is tokenized. For a
  file of one block this is the same. For a longer file it is the same but for the
  choice of the error, when one block does not tokenize and a later one does not
  decode: in both cases no table is returned.
\<close>

definition continuation :: "char \<Rightarrow> bool" where
  "continuation c \<longleftrightarrow> 0x80 \<le> (of_char c :: nat) \<and> (of_char c :: nat) \<le> 0xBF"

fun valid_utf8 :: "string \<Rightarrow> bool" where
  "valid_utf8 [] = True"
| "valid_utf8 (a # bs) =
     (let n = (of_char a :: nat) in
      if n < 0x80 then valid_utf8 bs
      else if 0xC2 \<le> n \<and> n \<le> 0xDF then
        (case bs of
           b # cs \<Rightarrow> continuation b \<and> valid_utf8 cs
         | _ \<Rightarrow> False)
      else if 0xE0 \<le> n \<and> n \<le> 0xEF then
        (case bs of
           b # c # cs \<Rightarrow>
             continuation b \<and> continuation c \<and>
             (n = 0xE0 \<longrightarrow> 0xA0 \<le> (of_char b :: nat)) \<and>
             (n = 0xED \<longrightarrow> (of_char b :: nat) \<le> 0x9F) \<and> valid_utf8 cs
         | _ \<Rightarrow> False)
      else if 0xF0 \<le> n \<and> n \<le> 0xF4 then
        (case bs of
           b # c # d # cs \<Rightarrow>
             continuation b \<and> continuation c \<and> continuation d \<and>
             (n = 0xF0 \<longrightarrow> 0x90 \<le> (of_char b :: nat)) \<and>
             (n = 0xF4 \<longrightarrow> (of_char b :: nat) \<le> 0x8F) \<and> valid_utf8 cs
         | _ \<Rightarrow> False)
      else False)"

text \<open>A byte order mark at the start of the file is skipped.\<close>

definition skip_bom :: "string \<Rightarrow> string" where
  "skip_bom text =
     (case text of
        a # b # c # rest \<Rightarrow>
          if a = CHR 0xEF \<and> b = CHR 0xBB \<and> c = CHR 0xBF then rest else text
      | _ \<Rightarrow> text)"

text \<open>
  The tokenizer of \<^verbatim>\<open>read_csv\<close> is a state machine over the bytes of the file, run with
  the delimiter that the call passes and the defaults of every other option: the quote
  character is the double quote, a doubled quote inside a quoted field stands for one
  quote, a quoted field may hold delimiters and line ends, a record ends at a line feed,
  at a carriage return or at a carriage return followed by a line feed, and lines that
  are empty or hold only blanks and tabs are skipped.

  The state is the tokenizer state, the field being read and the fields of the record
  being read. A step consumes one byte and may complete a record.
\<close>

datatype tok_state =
  START_RECORD | WHITESPACE_LINE | START_FIELD | IN_FIELD | IN_QUOTED_FIELD
| QUOTE_IN_QUOTED_FIELD | EAT_CRNL | EAT_CRNL_NOP

type_synonym tokenizer = "tok_state \<times> string \<times> string list"

definition LF :: char where
  "LF = CHR 0x0A"

definition CR :: char where
  "CR = CHR 0x0D"

definition TAB :: char where
  "TAB = CHR 0x09"

definition QUOTE :: char where
  "QUOTE = CHR 0x22"

definition is_whitespace :: "char \<Rightarrow> bool" where
  "is_whitespace c \<longleftrightarrow> c = CHR '' '' \<or> c = TAB"

definition start_field :: "char \<Rightarrow> string list \<Rightarrow> char \<Rightarrow> tokenizer \<times> string list option" where
  "start_field sep flds c =
     (if c = LF then ((START_RECORD, [], []), Some (flds @ [[]]))
      else if c = CR then ((EAT_CRNL, [], []), Some (flds @ [[]]))
      else if c = QUOTE then ((IN_QUOTED_FIELD, [], flds), None)
      else if c = sep then ((START_FIELD, [], flds @ [[]]), None)
      else ((IN_FIELD, [c], flds), None))"

definition in_field :: "char \<Rightarrow> string \<Rightarrow> string list \<Rightarrow> char \<Rightarrow> tokenizer \<times> string list option" where
  "in_field sep fld flds c =
     (if c = LF then ((START_RECORD, [], []), Some (flds @ [fld]))
      else if c = CR then ((EAT_CRNL, [], []), Some (flds @ [fld]))
      else if c = sep then ((START_FIELD, [], flds @ [fld]), None)
      else ((IN_FIELD, fld @ [c], flds), None))"

definition start_record :: "char \<Rightarrow> char \<Rightarrow> tokenizer \<times> string list option" where
  "start_record sep c =
     (if c = LF then ((START_RECORD, [], []), None)
      else if c = CR then ((EAT_CRNL_NOP, [], []), None)
      else if is_whitespace c \<and> c \<noteq> sep then ((WHITESPACE_LINE, [c], []), None)
      else start_field sep [] c)"

fun step :: "char \<Rightarrow> tokenizer \<Rightarrow> char \<Rightarrow> tokenizer \<times> string list option" where
  "step sep (START_RECORD, fld, flds) c = start_record sep c"
| "step sep (WHITESPACE_LINE, fld, flds) c =
     (if c = LF then ((START_RECORD, [], []), None)
      else if c = CR then ((EAT_CRNL_NOP, [], []), None)
      else if is_whitespace c \<and> c \<noteq> sep then ((WHITESPACE_LINE, fld @ [c], []), None)
      else in_field sep fld [] c)"
| "step sep (START_FIELD, fld, flds) c = start_field sep flds c"
| "step sep (IN_FIELD, fld, flds) c = in_field sep fld flds c"
| "step sep (IN_QUOTED_FIELD, fld, flds) c =
     (if c = QUOTE then ((QUOTE_IN_QUOTED_FIELD, fld, flds), None)
      else ((IN_QUOTED_FIELD, fld @ [c], flds), None))"
| "step sep (QUOTE_IN_QUOTED_FIELD, fld, flds) c =
     (if c = QUOTE then ((IN_QUOTED_FIELD, fld @ [c], flds), None)
      else in_field sep fld flds c)"
| "step sep (EAT_CRNL, fld, flds) c =
     (if c = LF then ((START_RECORD, [], []), None) else start_record sep c)"
| "step sep (EAT_CRNL_NOP, fld, flds) c =
     (if c = LF \<or> c = sep then ((START_RECORD, [], []), None) else start_record sep c)"

text \<open>At the end of the file a record that was begun is completed; the end of the file
  inside a quoted field is an error.\<close>

fun handle_eof :: "tokenizer \<Rightarrow> error + string list list" where
  "handle_eof (START_FIELD, fld, flds) = Inr [flds @ [fld]]"
| "handle_eof (IN_FIELD, fld, flds) = Inr [flds @ [fld]]"
| "handle_eof (QUOTE_IN_QUOTED_FIELD, fld, flds) = Inr [flds @ [fld]]"
| "handle_eof (IN_QUOTED_FIELD, fld, flds) = Inl ParserError"
| "handle_eof (st, fld, flds) = Inr []"

fun emit :: "string list option \<Rightarrow> error + string list list \<Rightarrow> error + string list list" where
  "emit None records = records"
| "emit (Some record) (Inl e) = Inl e"
| "emit (Some record) (Inr records) = Inr (record # records)"

fun tokenize_bytes :: "char \<Rightarrow> tokenizer \<Rightarrow> string \<Rightarrow> error + string list list" where
  "tokenize_bytes sep tk [] = handle_eof tk"
| "tokenize_bytes sep tk (c # cs) =
     emit (snd (step sep tk c)) (tokenize_bytes sep (fst (step sep tk c)) cs)"

text \<open>
  The strings that \<^verbatim>\<open>read_csv\<close> reads as a missing value (the default
  \<^verbatim>\<open>na_values\<close>), the empty field among them.
\<close>

definition na_values :: "string list" where
  "na_values = [[], ''#N/A'', ''#N/A N/A'', ''#NA'', ''-1.#IND'', ''-1.#QNAN'', ''-NaN'',
     ''-nan'', ''1.#IND'', ''1.#QNAN'', ''<NA>'', ''N/A'', ''NA'', ''NULL'', ''NaN'', ''None'',
     ''n/a'', ''nan'', ''null'']"

definition cell_value :: "string \<Rightarrow> string option" where
  "cell_value s = (if s \<in> set na_values then None else Some s)"

text \<open>
  The width of the table. The first record is the header. The first data record may have
  more fields than the header: the surplus leading fields become the row index and are no
  columns. Every data record is padded with empty fields to the width of the first one;
  a later record with more fields than that is an error.
\<close>

fun pad_records :: "nat \<Rightarrow> string list list \<Rightarrow> error + string list list" where
  "pad_records w [] = Inr []"
| "pad_records w (r # rs) =
     (if w < length r then Inl ParserError
      else case pad_records w rs of
             Inl e \<Rightarrow> Inl e
           | Inr rs' \<Rightarrow> Inr ((r @ replicate (w - length r) []) # rs'))"

record frame =
  columns :: "string list"
  rows :: "string option list list"

definition build_frame :: "string list list \<Rightarrow> error + frame" where
  "build_frame records =
     (case records of
        [] \<Rightarrow> Inl EmptyDataError
      | header # body \<Rightarrow>
          (let w = (case body of [] \<Rightarrow> length header | r # rs \<Rightarrow> max (length header) (length r))
           in case pad_records w body of
                Inl e \<Rightarrow> Inl e
              | Inr padded \<Rightarrow>
                  Inr \<lparr>columns = header,
                       rows = map (\<lambda>r. map cell_value (drop (w - length header) r)) padded\<rparr>))"

definition read_csv :: "char \<Rightarrow> string \<Rightarrow> error + frame" where
  "read_csv sep text =
     (if \<not> valid_utf8 text then Inl UnicodeDecodeError
      else case tokenize_bytes sep (START_RECORD, [], []) (skip_bom text) of
             Inl e \<Rightarrow> Inl e
           | Inr records \<Rightarrow> build_frame records)"

subsection \<open>The conversions of \<^verbatim>\<open>load_data\<close>\<close>

text \<open>
  \<^verbatim>\<open>pd.to_datetime(series, format=...)\<close> with the default \<^verbatim>\<open>errors='raise'\<close>:
  a missing value stays missing, a string is parsed under the format, and the first
  string that does not parse raises. The parser of the format is the argument
  \<open>strptime\<close>.
\<close>

fun to_datetime :: "(string \<Rightarrow> Timestamp option) \<Rightarrow> string option list \<Rightarrow> error + Timestamp option list" where
  "to_datetime strptime [] = Inr []"
| "to_datetime strptime (None # xs) =
     (case to_datetime strptime xs of Inl e \<Rightarrow> Inl e | Inr ts \<Rightarrow> Inr (None # ts))"
| "to_datetime strptime (Some s # xs) =
     (case strptime s of
        None \<Rightarrow> Inl ValueError
      | Some t \<Rightarrow>
          (case to_datetime strptime xs of Inl e \<Rightarrow> Inl e | Inr ts \<Rightarrow> Inr (Some t # ts)))"

text \<open>
  \<^verbatim>\<open>pd.to_numeric(series, errors="coerce")\<close>: a string that is no number becomes a
  missing value. The parser of numbers is the argument \<open>to_float\<close>.
\<close>

definition to_numeric_coerce :: "(string \<Rightarrow> rat option) \<Rightarrow> string option \<Rightarrow> rat option" where
  "to_numeric_coerce to_float x = (case x of None \<Rightarrow> None | Some s \<Rightarrow> to_float s)"

text \<open>\<^verbatim>\<open>Series.map({"Ano": True, "Nie": False})\<close>, the first key with its diacritic,
  in UTF-8: a value that is no key of the dictionary becomes a missing value.\<close>

definition Ano :: string where
  "Ano = [CHR 0xC3, CHR 0x81, CHR ''n'', CHR ''o'']"

definition IsAnonymous_dict :: "string \<rightharpoonup> bool" where
  "IsAnonymous_dict = [Ano \<mapsto> True, ''Nie'' \<mapsto> False]"

definition series_map :: "('a \<rightharpoonup> 'b) \<Rightarrow> 'a option \<Rightarrow> 'b option" where
  "series_map d x = (case x of None \<Rightarrow> None | Some s \<Rightarrow> d s)"

text \<open>The cell of a row in a column; the sixteen columns in the order of the list that
  \<^verbatim>\<open>load_data\<close> assigns to \<^verbatim>\<open>df.columns\<close>.\<close>

definition cell :: "string option list \<Rightarrow> nat \<Rightarrow> string option" where
  "cell r i = (if i < length r then r ! i else None)"

definition convert_row :: "(string \<Rightarrow> rat option) \<Rightarrow> string option list \<Rightarrow> Timestamp option \<Rightarrow> donation" where
  "convert_row to_float r t =
     \<lparr>Organization = cell r 0, Campaign = cell r 1, DonationDate = t,
      FirstName = cell r 3, LastName = cell r 4,
      AmountEUR = to_numeric_coerce to_float (cell r 5),
      Frequency = cell r 6, PaymentVS = cell r 7, PaymentStatus = cell r 8,
      Email = cell r 9, PaymentGateway = cell r 10, PaymentMethod = cell r 11,
      IsAnonymous = series_map IsAnonymous_dict (cell r 12),
      AltLinkName = cell r 13, Source = cell r 14, DonorType = cell r 15\<rparr>"

text \<open>
  \<^verbatim>\<open>load_data\<close>. Assigning the sixteen names to \<^verbatim>\<open>df.columns\<close> raises when the
  file has another number of columns.
\<close>

definition load_frame :: "(string \<Rightarrow> Timestamp option) \<Rightarrow> (string \<Rightarrow> rat option) \<Rightarrow> frame \<Rightarrow> error + DataFrame" where
  "load_frame strptime to_float fr =
     (if length (columns fr) \<noteq> 16 then Inl ValueError
      else case to_datetime strptime (map (\<lambda>r. cell r 2) (rows fr)) of
             Inl e \<Rightarrow> Inl e
           | Inr ts \<Rightarrow> Inr (map2 (convert_row to_float) (rows fr) ts))"

definition load_data :: "(string \<Rightarrow> Timestamp option) \<Rightarrow> (string \<Rightarrow> rat option) \<Rightarrow> string \<Rightarrow> error + DataFrame" where
  "load_data strptime to_float uploaded_file =
     (case read_csv (CHR '';'') uploaded_file of
        Inl e \<Rightarrow> Inl e
      | Inr fr \<Rightarrow> load_frame strptime to_float fr)"

section \<open>The dashboard\<close>

text \<open>
  What the script renders, as the list of the Streamlit elements in the order of the
  calls. The titles are given without their emoji.
\<close>

datatype chart_data =
  Amounts "(string \<times> rat) list"
| Counts "(string \<times> nat) list"
| Table "rfm_row list"

datatype element =
  St_success | St_warning | St_info
| St_subheader string | St_header string | St_write
| St_bar_chart chart_data | St_altair_chart chart_data | St_dataframe chart_data

text \<open>\<^verbatim>\<open>rfm.sort_values(by='Monetary', ascending=False)\<close>\<close>

definition sort_by_Monetary_desc :: "rfm_row list \<Rightarrow> rfm_row list" where
  "sort_by_Monetary_desc rs = rev (sort_key Monetary_EUR (rev rs))"

text \<open>The body of \<^verbatim>\<open>if not df.empty\<close>. The monthly totals are computed first; when
  they raise, nothing of the body is rendered.\<close>

definition dashboard_visuals :: "DataFrame \<Rightarrow> error + element list" where
  "dashboard_visuals df =
     (case monthly_donations df of
        Inl e \<Rightarrow> Inl e
      | Inr monthly \<Rightarrow>
          Inr [St_subheader ''Total Donation Amount by Month'',
               St_bar_chart (Amounts monthly),
               St_subheader ''Top 5 Campaigns by Donation Amount'',
               St_altair_chart (Amounts (top_5 df)),
               St_subheader ''Bottom 5 Campaigns by Donation Amount'',
               St_altair_chart (Amounts (bottom_5 df)),
               St_subheader ''Donation Frequency Distribution'',
               St_altair_chart (Counts (freq_counts df)),
               St_subheader ''Number of Donations by Donor Type'',
               St_bar_chart (Counts (donor_counts df)),
               St_subheader ''Total Donation Amount by Donor Type'',
               St_bar_chart (Amounts (donation_sums df)),
               St_header ''RFM Analysis (Recency, Frequency, Monetary)'',
               St_write,
               St_dataframe (Table (sort_by_Monetary_desc (rfm df)))])"

text \<open>The script from the file uploader on: an exception ends the run.\<close>

definition app :: "(string \<Rightarrow> Timestamp option) \<Rightarrow> (string \<Rightarrow> rat option) \<Rightarrow> string option \<Rightarrow> error + element list" where
  "app strptime to_float uploaded_file =
     (case uploaded_file of
        None \<Rightarrow> Inr [St_info]
      | Some f \<Rightarrow>
          (case load_data strptime to_float f of
             Inl e \<Rightarrow> Inl e
           | Inr df \<Rightarrow>
               (if df \<noteq> []
                then case dashboard_visuals df of
                       Inl e \<Rightarrow> Inl e
                     | Inr visuals \<Rightarrow> Inr (St_success # visuals)
                else Inr [St_success, St_warning])))"

text \<open>The elements that show an aggregate: the charts and the table.\<close>

fun is_visual :: "element \<Rightarrow> bool" where
  "is_visual (St_bar_chart d) = True"
| "is_visual (St_altair_chart d) = True"
| "is_visual (St_dataframe d) = True"
| "is_visual e = False"

section \<open>Parsers for the examples\<close>

text \<open>
  The theorems about \<^verbatim>\<open>load_data\<close> hold for every parser of dates and of numbers.
  To run \<^verbatim>\<open>load_data\<close> on an example file, here are a parser of the format
  \<^verbatim>\<open>%d.%m.%Y %H:%M:%S\<close> (one or two digits for each field, four for the year, one
  blank between date and time, a date of the calendar) and a parser of decimal numbers
  (an optional minus sign, digits, optionally a point and digits).
\<close>

fun split_on :: "'a \<Rightarrow> 'a list \<Rightarrow> 'a list list" where
  "split_on c [] = [[]]"
| "split_on c (x # xs) =
     (if x = c then [] # split_on c xs
      else case split_on c xs of
             [] \<Rightarrow> [[x]]
           | f # fs \<Rightarrow> (x # f) # fs)"

definition is_digit :: "char \<Rightarrow> bool" where
  "is_digit c \<longleftrightarrow> c \<in> set ''0123456789''"

definition number :: "string \<Rightarrow> int" where
  "number ds = foldl (\<lambda>a c. 10 * a + (of_char c - 48)) 0 ds"

definition is_number :: "nat \<Rightarrow> nat \<Rightarrow> string \<Rightarrow> bool" where
  "is_number lo hi ds \<longleftrightarrow> lo \<le> length ds \<and> length ds \<le> hi \<and> list_all is_digit ds"

definition days_from_civil :: "int \<Rightarrow> int \<Rightarrow> int \<Rightarrow> int" where
  "days_from_civil y0 m d =
     (let y = (if m \<le> 2 then y0 - 1 else y0);
          era = y div 400;
          yoe = y - era * 400;
          mp = (m + 9) mod 12;
          doy = (153 * mp + 2) div 5 + d - 1;
          doe = yoe * 365 + yoe div 4 - yoe div 100 + doy
      in era * 146097 + doe - 719468)"

definition days_in_month :: "int \<Rightarrow> int \<Rightarrow> int" where
  "days_in_month y m =
     (if m = 2 then (if y mod 4 = 0 \<and> (y mod 100 \<noteq> 0 \<or> y mod 400 = 0) then 29 else 28)
      else if m = 4 \<or> m = 6 \<or> m = 9 \<or> m = 11 then 30 else 31)"

definition strptime_dmY_HMS :: "string \<Rightarrow> Timestamp option" where
  "strptime_dmY_HMS s =
     (case split_on (CHR '' '') s of
        [date, time] \<Rightarrow>
          (case (split_on (CHR ''.'') date, split_on (CHR '':'') time) of
             ([d, m, y], [H, M, S]) \<Rightarrow>
               (if is_number 1 2 d \<and> is_number 1 2 m \<and> is_number 4 4 y \<and>
                   is_number 1 2 H \<and> is_number 1 2 M \<and> is_number 1 2 S \<and>
                   1 \<le> number m \<and> number m \<le> 12 \<and>
                   1 \<le> number d \<and> number d \<le> days_in_month (number y) (number m) \<and>
                   number H \<le> 23 \<and> number M \<le> 59 \<and> number S \<le> 59
                then Some (days_from_civil (number y) (number m) (number d) * 86400
                           + number H * 3600 + number M * 60 + number S)
                else None)
           | _ \<Rightarrow> None)
      | _ \<Rightarrow> None)"

definition decimal :: "string \<Rightarrow> rat option" where
  "decimal s =
     (let (sign, digits) = (case s of c # cs \<Rightarrow> if c = CHR ''-'' then (- 1, cs) else (1, s) | [] \<Rightarrow> (1, s))
      in case split_on (CHR ''.'') digits of
           [i] \<Rightarrow> (if is_number 1 (length i) i then Some (sign * of_int (number i)) else None)
         | [i, f] \<Rightarrow>
             (if is_number 1 (length i) i \<and> is_number 1 (length f) f
              then Some (sign * (of_int (number i) + of_int (number f) / 10 ^ length f))
              else None)
         | _ \<Rightarrow> None)"

section \<open>A delimited table, line by line\<close>


definition blank_line :: "string \<Rightarrow> bool" where
  "blank_line l \<longleftrightarrow> list_all is_whitespace l"

definition delimited :: "char \<Rightarrow> string list \<Rightarrow> string list list" where
  "delimited sep ls = map (split_on sep) (filter (\<lambda>l. \<not> blank_line l) ls)"

text \<open>
  A text whose carriage returns are all followed by a line feed; and the states of the
  tokenizer that a text without quote characters can reach.
\<close>

fun crlf_only :: "string \<Rightarrow> bool" where
  "crlf_only [] = True"
| "crlf_only [c] = (c \<noteq> CR)"
| "crlf_only (c # d # cs) = (if c = CR then d = LF \<and> crlf_only cs else crlf_only (d # cs))"

definition plain_state :: "tokenizer \<Rightarrow> bool" where
  "plain_state tk \<longleftrightarrow> fst tk \<in> {START_RECORD, WHITESPACE_LINE, START_FIELD, IN_FIELD}"

section \<open>The totals that the aggregates are compared with\<close>

text \<open>
  The total of a calendar month and of a campaign, written as sums over the rows of the
  table: the amounts of all rows whose date falls in the month, or whose campaign it is.
  A missing amount adds nothing.
\<close>

definition month_total :: "DataFrame \<Rightarrow> int \<Rightarrow> rat" where
  "month_total df k =
     (\<Sum>r\<leftarrow>filter (\<lambda>r. map_option month_of (DonationDate r) = Some k) df.
        case AmountEUR r of None \<Rightarrow> 0 | Some a \<Rightarrow> a)"

definition campaign_total :: "DataFrame \<Rightarrow> string \<Rightarrow> rat" where
  "campaign_total df c =
     (\<Sum>r\<leftarrow>filter (\<lambda>r. Campaign r = Some c) df. case AmountEUR r of None \<Rightarrow> 0 | Some a \<Rightarrow> a)"

section \<open>Example tables\<close>

text \<open>A row with every field missing, and a small table built from it: two donors, one
  of them with a failed payment and with a successful payment that carries no amount.\<close>

definition blank :: donation where
  "blank = \<lparr>Organization = None, Campaign = None, DonationDate = None, FirstName = None,
     LastName = None, AmountEUR = None, Frequency = None, PaymentVS = None,
     PaymentStatus = None, Email = None, PaymentGateway = None, PaymentMethod = None,
     IsAnonymous = None, AltLinkName = None, Source = None, DonorType = None\<rparr>"

definition example_df :: DataFrame where
  "example_df =
     [blank\<lparr>Email := Some ''b@x'', PaymentStatus := Some Uspesna, DonationDate := Some 86400,
            AmountEUR := Some 10, Campaign := Some ''c1''\<rparr>,
      blank\<lparr>Email := Some ''a@x'', PaymentStatus := Some Uspesna, DonationDate := Some 1000000,
            AmountEUR := Some (5 / 2), Campaign := Some ''c2''\<rparr>,
      blank\<lparr>Email := Some ''b@x'', PaymentStatus := Some ''x'', DonationDate := Some 2000000,
            AmountEUR := Some 7, Campaign := Some ''c1''\<rparr>,
      blank\<lparr>Email := Some ''b@x'', PaymentStatus := Some Uspesna, DonationDate := Some 500000,
            AmountEUR := None, Campaign := Some ''c1''\<rparr>]"

text \<open>A table of seven campaigns, two of them with two donations.\<close>

definition campaigns_df :: DataFrame where
  "campaigns_df =
     [blank\<lparr>Campaign := Some ''c1'', AmountEUR := Some 30\<rparr>,
      blank\<lparr>Campaign := Some ''c2'', AmountEUR := Some 10\<rparr>,
      blank\<lparr>Campaign := Some ''c3'', AmountEUR := Some 70\<rparr>,
      blank\<lparr>Campaign := Some ''c4'', AmountEUR := Some 20\<rparr>,
      blank\<lparr>Campaign := Some ''c5'', AmountEUR := Some 60\<rparr>,
      blank\<lparr>Campaign := Some ''c6'', AmountEUR := Some 50\<rparr>,
      blank\<lparr>Campaign := Some ''c3'', AmountEUR := None\<rparr>,
      blank\<lparr>Campaign := Some ''c7'', AmountEUR := Some 15\<rparr>,
      blank\<lparr>Campaign := Some ''c7'', AmountEUR := Some 25\<rparr>]"

text \<open>
  An example file: a header of sixteen names and three donations. The second donation
  has an amount with a decimal comma, which is no number for \<^verbatim>\<open>to_numeric\<close>, and
  the value \<^verbatim>\<open>yes\<close> in the column \<^verbatim>\<open>IsAnonymous\<close>; the third one failed.
\<close>

definition example_header :: string where
  "example_header =
     ''Organizacia;Kampan;Datum;Meno;Priezvisko;Suma;Frekvencia;VS;Stav;Email;Brana;Metoda;Anonym;Odkaz;Zdroj;Typ''"

definition example_file :: string where
  "example_file =
     example_header @ [LF] @
     ''UNICEF;Voda, jedlo;01.03.2024 10:00:00;Jan;Novak;10.50;Mesacne;1;'' @ Uspesna @
       '';a@x;gw;karta;Nie;;web;FO'' @ [LF] @
     ''UNICEF;Skoly;15.03.2024 08:30:00;Eva;Mala;12,50;Jednorazovo;2;'' @ Uspesna @
       '';b@x;gw;karta;yes;;web;FO'' @ [LF] @
     ''UNICEF;Skoly;02.04.2024 09:00:00;Eva;Mala;7;Jednorazovo;3;Zlyhala;b@x;gw;karta;'' @ Ano @
       '';;web;PO'' @ [LF]"

definition example_loaded :: DataFrame where
  "example_loaded =
     [\<lparr>Organization = Some ''UNICEF'', Campaign = Some ''Voda, jedlo'',
       DonationDate = Some 1709287200, FirstName = Some ''Jan'', LastName = Some ''Novak'',
       AmountEUR = Some (21 / 2), Frequency = Some ''Mesacne'', PaymentVS = Some ''1'',
       PaymentStatus = Some Uspesna, Email = Some ''a@x'', PaymentGateway = Some ''gw'',
       PaymentMethod = Some ''karta'', IsAnonymous = Some False, AltLinkName = None,
       Source = Some ''web'', DonorType = Some ''FO''\<rparr>,
      \<lparr>Organization = Some ''UNICEF'', Campaign = Some ''Skoly'',
       DonationDate = Some 1710491400, FirstName = Some ''Eva'', LastName = Some ''Mala'',
       AmountEUR = None, Frequency = Some ''Jednorazovo'', PaymentVS = Some ''2'',
       PaymentStatus = Some Uspesna, Email = Some ''b@x'', PaymentGateway = Some ''gw'',
       PaymentMethod = Some ''karta'', IsAnonymous = None, AltLinkName = None,
       Source = Some ''web'', DonorType = Some ''FO''\<rparr>,
      \<lparr>Organization = Some ''UNICEF'', Campaign = Some ''Skoly'',
       DonationDate = Some 1712048400, FirstName = Some ''Eva'', LastName = Some ''Mala'',
       AmountEUR = Some 7, Frequency = Some ''Jednorazovo'', PaymentVS = Some ''3'',
       PaymentStatus = Some ''Zlyhala'', Email = Some ''b@x'', PaymentGateway = Some ''gw'',
       PaymentMethod = Some ''karta'', IsAnonymous = Some True, AltLinkName = None,
       Source = Some ''web'', DonorType = Some ''PO''\<rparr>]"

definition example_frame :: frame where
  "example_frame =
     \<lparr>columns = [''Organizacia'', ''Kampan'', ''Datum'', ''Meno'', ''Priezvisko'',
         ''Suma'', ''Frekvencia'', ''VS'', ''Stav'', ''Email'', ''Brana'',
         ''Metoda'', ''Anonym'', ''Odkaz'', ''Zdroj'', ''Typ''],
      rows =
          [[Some ''UNICEF'', Some ''Voda, jedlo'',
            Some ''01.03.2024 10:00:00'', Some ''Jan'', Some ''Novak'',
            Some ''10.50'', Some ''Mesacne'', Some ''1'', Some Uspesna,
            Some ''a@x'', Some ''gw'', Some ''karta'', Some ''Nie'', None,
            Some ''web'', Some ''FO''],
           [Some ''UNICEF'', Some ''Skoly'', Some ''15.03.2024 08:30:00'',
            Some ''Eva'', Some ''Mala'', Some ''12,50'',
            Some ''Jednorazovo'', Some ''2'', Some Uspesna,
            Some ''b@x'', Some ''gw'', Some ''karta'', Some ''yes'', None,
            Some ''web'', Some ''FO''],
           [Some ''UNICEF'', Some ''Skoly'', Some ''02.04.2024 09:00:00'',
            Some ''Eva'', Some ''Mala'', Some ''7'', Some ''Jednorazovo'',
            Some ''3'', Some ''Zlyhala'', Some ''b@x'', Some ''gw'',
            Some ''karta'', Some Ano, None, Some ''web'', Some ''PO'']]\<rparr>"






section \<open>Facts about the pandas operations\<close>

lemma set_dropna: "set (dropna xs) = {x. Some x \<in> set xs}"
  by (induction xs rule: dropna.induct) auto

lemma set_dropna_map: "set (dropna (map f xs)) = {x. \<exists>r\<in>set xs. f r = Some x}"
proof -
  have "Some x \<in> f ` set xs \<longleftrightarrow> (\<exists>r\<in>set xs. f r = Some x)" for x
    by (metis (full_types) image_iff)
  then show ?thesis by (simp add: set_dropna)
qed

lemma sum_list_dropna:
  "sum_list (dropna (map f xs)) = (\<Sum>r\<leftarrow>xs. case f r of None \<Rightarrow> 0 | Some a \<Rightarrow> a)"
  by (induction xs) (auto split: option.splits)

lemma series_sum_map:
  "series_sum (map f xs) = (\<Sum>r\<leftarrow>xs. case f r of None \<Rightarrow> 0 | Some a \<Rightarrow> a)"
  by (simp add: series_sum_def sum_list_dropna)

lemma fold_max_Max: "fold max ys (y::int) = Max (set (y # ys))"
  using Max.set_eq_fold [of y ys] by simp

lemma fold_min_Min: "fold min ys (y::int) = Min (set (y # ys))"
  using Min.set_eq_fold [of y ys] by simp

lemma series_max_Max:
  "series_max xs = (if dropna xs = [] then None else Some (Max (set (dropna xs))))"
  by (simp add: series_max_def fold_max_Max split: list.splits)

lemma series_min_Min:
  "series_min xs = (if dropna xs = [] then None else Some (Min (set (dropna xs))))"
  by (simp add: series_min_def fold_min_Min split: list.splits)

lemma groupby_keys: "map fst (groupby key df) = sort (remdups (dropna (map key df)))"
  by (simp add: groupby_def comp_def)

lemma distinct_groupby: "distinct (map fst (groupby key df))"
  by (simp add: groupby_keys)

lemma set_groupby_keys: "set (map fst (groupby key df)) = {k. \<exists>r\<in>set df. key r = Some k}"
  by (simp add: groupby_keys set_dropna_map)

lemma in_groupby:
  "(k, g) \<in> set (groupby key df) \<longleftrightarrow>
     (\<exists>r\<in>set df. key r = Some k) \<and> g = filter (\<lambda>r. key r = Some k) df"
  by (auto simp: groupby_def set_dropna_map)

lemma series_count_group:
  "series_count (map key (filter (\<lambda>r. key r = Some k) df)) =
     length (filter (\<lambda>r. key r = Some k) df)"
  by (induction df) (auto simp: series_count_def)

section \<open>The tokenizer on files without quotes\<close>

lemma split_on_not_Nil [simp]: "split_on c xs \<noteq> []"
  by (induction xs) (auto split: list.splits)

lemma split_on_Cons:
  "split_on c (x # xs) =
     (if x = c then [] # split_on c xs else (x # hd (split_on c xs)) # tl (split_on c xs))"
  by (cases "split_on c xs") auto



lemma split_on_prefix:
  "c \<notin> set w \<Longrightarrow> split_on c (w @ xs) = (w @ hd (split_on c xs)) # tl (split_on c xs)"
  by (induction w) (auto simp: split_on_Cons)

lemma delimited_Cons:
  "delimited sep (l # ls) =
     (if blank_line l then delimited sep ls else split_on sep l # delimited sep ls)"
  by (simp add: delimited_def)

lemma blank_line_simps:
  "blank_line []"
  "blank_line (c # l) \<longleftrightarrow> is_whitespace c \<and> blank_line l"
  "blank_line (w @ l) \<longleftrightarrow> blank_line w \<and> blank_line l"
  by (simp_all add: blank_line_def)

text \<open>
  On a text without quote characters and carriage returns the state machine yields the
  delimited table of the text. The four states that such a text can reach are described
  together: at the start of a record, inside a line of blanks \<open>w\<close>, at the start of a
  field after the fields \<open>flds\<close>, and inside the field \<open>fld\<close>.
\<close>

lemma tokenize_plain:
  assumes sep: "sep \<noteq> LF" "sep \<noteq> CR" "sep \<noteq> QUOTE" "\<not> is_whitespace sep"
  shows "CR \<notin> set t \<Longrightarrow> QUOTE \<notin> set t \<Longrightarrow>
    tokenize_bytes sep (START_RECORD, fld, flds) t = Inr (delimited sep (split_on LF t)) \<and>
    (blank_line w \<longrightarrow>
       tokenize_bytes sep (WHITESPACE_LINE, w, flds) t =
         Inr (delimited sep ((w @ hd (split_on LF t)) # tl (split_on LF t)))) \<and>
    tokenize_bytes sep (START_FIELD, [], flds) t =
      Inr ((flds @ split_on sep (hd (split_on LF t))) # delimited sep (tl (split_on LF t))) \<and>
    tokenize_bytes sep (IN_FIELD, fld, flds) t =
      Inr ((flds @ (fld @ hd (split_on sep (hd (split_on LF t)))) # tl (split_on sep (hd (split_on LF t))))
           # delimited sep (tl (split_on LF t)))"
proof (induction t arbitrary: fld flds w)
  case Nil
  then show ?case
    by (simp add: delimited_def blank_line_def)
next
  case (Cons c t)
  then have t: "CR \<notin> set t" "QUOTE \<notin> set t" and c: "c \<noteq> CR" "c \<noteq> QUOTE" by auto
  note IH = Cons.IH [OF t]
  have ws: "is_whitespace c \<Longrightarrow> c \<noteq> LF \<and> c \<noteq> sep"
    using sep by (auto simp: is_whitespace_def LF_def TAB_def)
  have sepw: "blank_line w \<Longrightarrow> sep \<notin> set w" for w
    using sep by (auto simp: blank_line_def list_all_iff)
  show ?case
  proof (cases "c = LF")
    case True
    then show ?thesis
      using IH sep c
      by (simp add: start_record_def start_field_def in_field_def split_on_Cons delimited_Cons
          blank_line_simps del: split_on.simps(2))
  next
    case nl: False
    show ?thesis
    proof (cases "c = sep")
      case True
      then show ?thesis
        using IH sep c nl sepw
        by (simp add: start_record_def start_field_def in_field_def split_on_Cons delimited_Cons
          blank_line_simps split_on_prefix del: split_on.simps(2))
    next
      case False
      show ?thesis
      proof (cases "is_whitespace c")
        case True
        then show ?thesis
        using IH sep c nl ws False sepw
        by (simp add: start_record_def start_field_def in_field_def split_on_Cons delimited_Cons
          blank_line_simps split_on_prefix del: split_on.simps(2))
      next
        case nw: False
        then show ?thesis
        using IH sep c nl False sepw
        by (simp add: start_record_def start_field_def in_field_def split_on_Cons delimited_Cons
          blank_line_simps split_on_prefix del: split_on.simps(2))
      qed
    qed
  qed
qed

text \<open>
  Line ends of the form carriage return, line feed. In the four states above a carriage
  return followed by a line feed has the effect of the line feed alone, so that such a
  file is read like the file without its carriage returns.
\<close>

lemma step_plain:
  assumes "plain_state tk" "c \<noteq> CR" "c \<noteq> QUOTE"
  shows "plain_state (fst (step sep tk c))"
  using assms
  by (cases tk; cases "fst tk")
     (auto simp: plain_state_def start_record_def start_field_def in_field_def)

lemma step_CR_LF:
  assumes "plain_state tk" "sep \<noteq> LF" "sep \<noteq> CR"
  shows "fst (step sep (fst (step sep tk CR)) LF) = fst (step sep tk LF) \<and>
         snd (step sep (fst (step sep tk CR)) LF) = None \<and>
         snd (step sep tk CR) = snd (step sep tk LF) \<and>
         plain_state (fst (step sep tk LF))"
  using assms
  by (cases tk; cases "fst tk")
     (auto simp: plain_state_def start_record_def start_field_def in_field_def
        LF_def CR_def QUOTE_def is_whitespace_def TAB_def)

lemma tokenize_crlf:
  assumes "sep \<noteq> LF" "sep \<noteq> CR"
  shows "crlf_only t \<Longrightarrow> QUOTE \<notin> set t \<Longrightarrow> plain_state tk \<Longrightarrow>
    tokenize_bytes sep tk t = tokenize_bytes sep tk (filter (\<lambda>c. c \<noteq> CR) t)"
proof (induction t arbitrary: tk rule: crlf_only.induct)
  case 1
  then show ?case by simp
next
  case (2 c)
  then show ?case by simp
next
  case (3 c d cs)
  show ?case
  proof (cases "c = CR")
    case True
    with "3.prems" have d: "d = LF" and cs: "crlf_only cs" "QUOTE \<notin> set cs" by auto
    note s = step_CR_LF [OF "3.prems"(3) assms]
    from s have p: "plain_state (fst (step sep tk LF))" by simp
    have IH: "tokenize_bytes sep (fst (step sep tk LF)) cs =
              tokenize_bytes sep (fst (step sep tk LF)) (filter (\<lambda>c. c \<noteq> CR) cs)"
      using "3.IH"(1) [OF True] d cs p by simp
    have lf: "LF \<noteq> CR" by (simp add: LF_def CR_def)
    show ?thesis
      using s IH lf by (simp add: True d)
  next
    case False
    with "3.prems" have dcs: "crlf_only (d # cs)" "QUOTE \<notin> set (d # cs)" and q: "c \<noteq> QUOTE"
      by auto
    have p: "plain_state (fst (step sep tk c))"
      by (rule step_plain [OF "3.prems"(3) False q])
    have IH: "tokenize_bytes sep (fst (step sep tk c)) (d # cs) =
              tokenize_bytes sep (fst (step sep tk c)) (filter (\<lambda>c. c \<noteq> CR) (d # cs))"
      by (rule "3.IH"(2) [OF False dcs p])
    show ?thesis
      using False IH by (simp del: crlf_only.simps)
  qed
qed

lemma crlf_only_no_CR: "CR \<notin> set t \<Longrightarrow> crlf_only t"
  by (induction t rule: crlf_only.induct) auto

lemma crlf_only_tail: "crlf_only (a # t) \<Longrightarrow> a \<noteq> CR \<Longrightarrow> crlf_only t"
  by (cases t) auto

lemma skip_bom_subset: "set (skip_bom t) \<subseteq> set t"
  by (auto simp: skip_bom_def split: list.splits if_splits)

lemma crlf_only_skip_bom: "crlf_only t \<Longrightarrow> crlf_only (skip_bom t)"
proof -
  assume c: "crlf_only t"
  have "crlf_only r" if "t = CHR 0xEF # CHR 0xBB # CHR 0xBF # r" for r
  proof -
    have n: "CHR 0xEF \<noteq> CR" "CHR 0xBB \<noteq> CR" "CHR 0xBF \<noteq> CR" by (simp_all add: CR_def)
    from c that have "crlf_only (CHR 0xBB # CHR 0xBF # r)" using crlf_only_tail n(1) by blast
    then have "crlf_only (CHR 0xBF # r)" using crlf_only_tail n(2) by blast
    then show ?thesis using crlf_only_tail n(3) by blast
  qed
  with c show ?thesis
    by (auto simp: skip_bom_def split: list.splits)
qed

lemma read_csv_crlf:
  assumes "valid_utf8 t" "crlf_only t" "QUOTE \<notin> set t"
  shows "read_csv (CHR '';'') t =
           build_frame (delimited (CHR '';'')
             (split_on LF (filter (\<lambda>c. c \<noteq> CR) (skip_bom t))))"
proof -
  let ?t = "filter (\<lambda>c. c \<noteq> CR) (skip_bom t)"
  have sep: "CHR '';'' \<noteq> LF" "CHR '';'' \<noteq> CR" "CHR '';'' \<noteq> QUOTE" "\<not> is_whitespace (CHR '';'')"
    by (simp_all add: LF_def CR_def QUOTE_def is_whitespace_def TAB_def)
  have c: "crlf_only (skip_bom t)" by (rule crlf_only_skip_bom [OF assms(2)])
  have q: "QUOTE \<notin> set (skip_bom t)" using assms(3) skip_bom_subset by blast
  have "tokenize_bytes (CHR '';'') (START_RECORD, [], []) (skip_bom t) =
          tokenize_bytes (CHR '';'') (START_RECORD, [], []) ?t"
    by (rule tokenize_crlf [OF sep(1,2) c q]) (simp add: plain_state_def)
  also have "\<dots> = Inr (delimited (CHR '';'') (split_on LF ?t))"
    using tokenize_plain [OF sep, of ?t "[]" "[]" "[]"] q by simp
  finally show ?thesis using assms(1) by (simp add: read_csv_def)
qed

lemma read_csv_plain:
  assumes "valid_utf8 t" "skip_bom t = t" "CR \<notin> set t" "QUOTE \<notin> set t"
  shows "read_csv (CHR '';'') t = build_frame (delimited (CHR '';'') (split_on LF t))"
proof -
  from assms(3) have "filter (\<lambda>c. c \<noteq> CR) t = t"
    by (simp add: filter_id_conv) metis
  with read_csv_crlf [OF assms(1) crlf_only_no_CR [OF assms(3)] assms(4)] assms(2)
  show ?thesis by simp
qed



section \<open>The example files, loaded\<close>

lemma example_plain: "CR \<notin> set example_file" "QUOTE \<notin> set example_file"
  by (simp_all add: example_file_def example_header_def Uspesna_def Ano_def LF_def CR_def QUOTE_def)

lemma example_utf8: "valid_utf8 example_file" "skip_bom example_file = example_file"
  by (simp_all add: example_file_def example_header_def Uspesna_def Ano_def LF_def
      continuation_def skip_bom_def)

lemma delimited_example:
  "delimited (CHR '';'') (split_on LF example_file) =
     [[''Organizacia'', ''Kampan'', ''Datum'', ''Meno'', ''Priezvisko'',
       ''Suma'', ''Frekvencia'', ''VS'', ''Stav'', ''Email'', ''Brana'',
       ''Metoda'', ''Anonym'', ''Odkaz'', ''Zdroj'', ''Typ''],
      [''UNICEF'', ''Voda, jedlo'', ''01.03.2024 10:00:00'', ''Jan'',
       ''Novak'', ''10.50'', ''Mesacne'', ''1'', Uspesna,
       ''a@x'', ''gw'', ''karta'', ''Nie'', [], ''web'', ''FO''],
      [''UNICEF'', ''Skoly'', ''15.03.2024 08:30:00'', ''Eva'', ''Mala'',
       ''12,50'', ''Jednorazovo'', ''2'', Uspesna,
       ''b@x'', ''gw'', ''karta'', ''yes'', [], ''web'', ''FO''],
      [''UNICEF'', ''Skoly'', ''02.04.2024 09:00:00'', ''Eva'', ''Mala'',
       ''7'', ''Jednorazovo'', ''3'', ''Zlyhala'', ''b@x'', ''gw'',
       ''karta'', Ano, [], ''web'', ''PO'']]"
  by (simp add: example_file_def example_header_def Uspesna_def Ano_def LF_def delimited_def
      blank_line_def is_whitespace_def TAB_def)

lemma read_example: "read_csv (CHR '';'') example_file = Inr example_frame"
  by (simp add: read_csv_plain example_plain example_utf8 delimited_example build_frame_def
      cell_value_def na_values_def Uspesna_def Ano_def example_frame_def)

lemma strptime_examples:
  "strptime_dmY_HMS ''01.03.2024 10:00:00'' = Some 1709287200"
  "strptime_dmY_HMS ''15.03.2024 08:30:00'' = Some 1710491400"
  "strptime_dmY_HMS ''02.04.2024 09:00:00'' = Some 1712048400"
  "strptime_dmY_HMS ''2024-03-02 10:00:00'' = None"
  by (simp_all add: strptime_dmY_HMS_def is_number_def is_digit_def number_def
      days_in_month_def days_from_civil_def)

lemma decimal_examples:
  "decimal ''10.50'' = Some (21 / 2)"
  "decimal ''12,50'' = None"
  "decimal ''7'' = Some 7"
  by (simp_all add: decimal_def is_number_def is_digit_def number_def)

lemma load_example: "load_data strptime_dmY_HMS decimal example_file = Inr example_loaded"
  by (simp add: load_data_def read_example load_frame_def example_frame_def cell_def
      strptime_examples decimal_examples convert_row_def to_numeric_coerce_def series_map_def
      IsAnonymous_dict_def example_loaded_def Ano_def Uspesna_def)










section \<open>\<^verbatim>\<open>load_data\<close>\<close>

lemma to_datetime_eq:
  "to_datetime P xs =
     (if \<exists>s. Some s \<in> set xs \<and> P s = None then Inl ValueError
      else Inr (map (\<lambda>x. case x of None \<Rightarrow> None | Some s \<Rightarrow> P s) xs))"
  by (induction P xs rule: to_datetime.induct) (auto split: option.splits)

text \<open>When \<^verbatim>\<open>load_data\<close> fails on a table that was read, and what it returns when it
  does not: every row of the table, converted.\<close>

lemma load_frame_eq:
  "load_frame P N fr =
     (if length (columns fr) \<noteq> 16 \<or> (\<exists>r\<in>set (rows fr). \<exists>s. cell r 2 = Some s \<and> P s = None)
      then Inl ValueError
      else Inr (map (\<lambda>r. convert_row N r (case cell r 2 of None \<Rightarrow> None | Some s \<Rightarrow> P s)) (rows fr)))"
proof -
  have *: "map2 (convert_row N) rs (map (\<lambda>x. case x of None \<Rightarrow> None | Some s \<Rightarrow> P s) (map (\<lambda>r. cell r 2) rs))
     = map (\<lambda>r. convert_row N r (case cell r 2 of None \<Rightarrow> None | Some s \<Rightarrow> P s)) rs" for rs
    by (induction rs) auto
  have **: "(\<exists>s. Some s \<in> set (map (\<lambda>r. cell r 2) rs) \<and> P s = None) \<longleftrightarrow>
      (\<exists>r\<in>set rs. \<exists>s. cell r 2 = Some s \<and> P s = None)" for rs
    unfolding set_map image_iff by metis
  show ?thesis
    unfolding load_frame_def to_datetime_eq ** by (simp add: * del: set_map map_map)
qed




text \<open>
  Claim C4. The column \<^verbatim>\<open>AmountEUR\<close> is the sixth column. Whether \<^verbatim>\<open>load_data\<close>
  returns a table does not depend on the amounts: it returns one whenever the file is
  read, has sixteen columns and every date parses. In the table every amount is the
  number that its string denotes, or missing when the string denotes no number or the
  cell is empty; the type of the field leaves no third possibility.
\<close>

theorem load_data_amount_coerced:
  assumes "read_csv (CHR '';'') uploaded_file = Inr fr"
    and "length (columns fr) = 16"
    and "\<forall>r\<in>set (rows fr). \<forall>s. cell r 2 = Some s \<longrightarrow> strptime s \<noteq> None"
  shows "\<exists>df. load_data strptime to_float uploaded_file = Inr df \<and>
           map AmountEUR df =
             map (\<lambda>r. case cell r 5 of None \<Rightarrow> None | Some s \<Rightarrow> to_float s) (rows fr)"
  using assms
  by (auto simp: load_data_def load_frame_eq convert_row_def to_numeric_coerce_def comp_def)

text \<open>The second donation of the example file has the amount \<^verbatim>\<open>12,50\<close>.\<close>

theorem load_data_amount_coerced_witness:
  "read_csv (CHR '';'') example_file = Inr example_frame \<and>
   length (columns example_frame) = 16 \<and>
   map (\<lambda>r. cell r 5) (rows example_frame) = [Some ''10.50'', Some ''12,50'', Some ''7''] \<and>
   load_data strptime_dmY_HMS decimal example_file = Inr example_loaded \<and>
   map AmountEUR example_loaded = [Some (21 / 2), None, Some 7]"
proof -
  have n: "length (columns example_frame) = 16"
    by (simp add: example_frame_def)
  have d: "\<forall>r\<in>set (rows example_frame). \<forall>s. cell r 2 = Some s \<longrightarrow> strptime_dmY_HMS s \<noteq> None"
    by (simp add: example_frame_def cell_def strptime_examples)
  have c: "map (\<lambda>r. cell r 5) (rows example_frame) = [Some ''10.50'', Some ''12,50'', Some ''7'']"
    by (simp add: example_frame_def cell_def)
  from load_data_amount_coerced [OF read_example n d, of decimal]
  have "map AmountEUR example_loaded = [Some (21 / 2), None, Some 7]"
    by (simp add: load_example example_frame_def cell_def decimal_examples)
  with read_example n c load_example show ?thesis by simp
qed

text \<open>
  Claim C8, as the code has it. The column \<^verbatim>\<open>IsAnonymous\<close> is the thirteenth column.
  After \<^verbatim>\<open>load_data\<close> the field is \<open>True\<close> where the file has the Slovak word for yes,
  \<open>False\<close> where it has \<^verbatim>\<open>Nie\<close>, and missing for every other string and for an empty
  cell.
\<close>

theorem load_data_IsAnonymous:
  assumes "load_data strptime to_float uploaded_file = Inr df"
  shows "\<exists>fr. read_csv (CHR '';'') uploaded_file = Inr fr \<and>
           map IsAnonymous df =
             map (\<lambda>r. case cell r 12 of
                         None \<Rightarrow> None
                       | Some s \<Rightarrow> if s = Ano then Some True
                                   else if s = ''Nie'' then Some False else None)
                 (rows fr)"
  using assms
  by (auto simp: load_data_def load_frame_eq convert_row_def series_map_def IsAnonymous_dict_def
      Ano_def comp_def split: sum.splits if_splits option.splits)

theorem load_data_IsAnonymous_witness:
  "load_data strptime_dmY_HMS decimal example_file = Inr example_loaded \<and>
   map (\<lambda>r. cell r 12) (rows example_frame) = [Some ''Nie'', Some ''yes'', Some Ano] \<and>
   map IsAnonymous example_loaded = [Some False, None, Some True]"
proof -
  have c: "map (\<lambda>r. cell r 12) (rows example_frame) = [Some ''Nie'', Some ''yes'', Some Ano]"
    by (simp add: example_frame_def cell_def)
  from load_data_IsAnonymous [OF load_example]
  have "map IsAnonymous example_loaded = [Some False, None, Some True]"
    by (simp add: read_example example_frame_def cell_def Ano_def)
  with load_example c show ?thesis by simp
qed

text \<open>The claim as it was stated, that the field of every record is a boolean, fails on
  the example file: its second donation has \<^verbatim>\<open>yes\<close> in the column, and the loaded
  record has no value there.\<close>

theorem load_data_IsAnonymous_not_boolean:
  "load_data strptime_dmY_HMS decimal example_file = Inr example_loaded \<and>
   \<not> (\<forall>r\<in>set example_loaded. IsAnonymous r \<noteq> None)"
  by (simp add: load_example) (simp add: example_loaded_def)




section \<open>The RFM table\<close>

lemma recency_Max:
  "recency (today df) (map DonationDate g) =
     (if dropna (map DonationDate g) = [] \<or> dropna (map DonationDate df) = [] then None
      else Some ((Max (set (dropna (map DonationDate df))) + 86400
                  - Max (set (dropna (map DonationDate g)))) div 86400))"
  by (simp add: recency_def today_def series_max_Max)

lemma in_rfm_agg:
  "row \<in> set (rfm_agg df) \<longleftrightarrow>
     (\<exists>e g. (e, g) \<in> set (groupby Email df) \<and>
        row = \<lparr>rfm_Email = e, Recency_days = recency (today df) (map DonationDate g),
               rfm_Frequency = series_count (map Email g),
               Monetary_EUR = series_sum (map AmountEUR g)\<rparr>)"
  by (auto simp: rfm_agg_def image_iff split: prod.splits)

lemma rfm_example:
  "rfm example_df =
     [\<lparr>rfm_Email = ''a@x'', Recency_days = Some 1, rfm_Frequency = 1, Monetary_EUR = 5 / 2\<rparr>,
      \<lparr>rfm_Email = ''b@x'', Recency_days = Some 6, rfm_Frequency = 2, Monetary_EUR = 10\<rparr>]"
  by code_simp

text \<open>
  Claim C1. The RFM table is one \<^verbatim>\<open>groupby('Email').agg(...)\<close> over the considered
  rows, those with a successful payment. For every row of the table, with \<open>g\<close> the
  considered rows of that donor: \<open>g\<close> is not empty, Frequency is the number of rows of
  \<open>g\<close>, Monetary is the sum of their amounts (a missing amount adds nothing), and Recency
  is the number of whole days from the donor's latest donation date to the reference
  date, which is the latest donation date of all considered rows plus one day. A donor
  none of whose rows has a date has a missing Recency.
\<close>

theorem rfm_row_aggregates:
  assumes "row \<in> set (rfm df)"
  shows "let considered = filter (\<lambda>r. PaymentStatus r = Some Uspesna) df;
             g = filter (\<lambda>r. Email r = Some (rfm_Email row)) considered;
             reference = Max (set (dropna (map DonationDate considered))) + 86400
         in g \<noteq> [] \<and>
            rfm_Frequency row = length g \<and>
            Monetary_EUR row = (\<Sum>r\<leftarrow>g. case AmountEUR r of None \<Rightarrow> 0 | Some a \<Rightarrow> a) \<and>
            Recency_days row =
              (if dropna (map DonationDate g) = [] then None
               else Some ((reference - Max (set (dropna (map DonationDate g)))) div 86400))"
proof -
  define considered where "considered = filter (\<lambda>r. PaymentStatus r = Some Uspesna) df"
  from assms obtain e g where eg: "(e, g) \<in> set (groupby Email considered)"
    and row: "row = \<lparr>rfm_Email = e, Recency_days = recency (today considered) (map DonationDate g),
               rfm_Frequency = series_count (map Email g),
               Monetary_EUR = series_sum (map AmountEUR g)\<rparr>"
    unfolding rfm_def successful_def considered_def [symmetric] in_rfm_agg by blast
  from eg have ex: "\<exists>r\<in>set considered. Email r = Some e"
    and g: "g = filter (\<lambda>r. Email r = Some e) considered"
    by (simp_all add: in_groupby)
  from ex have ne: "g \<noteq> []" by (auto simp: g filter_empty_conv)
  have sub: "dropna (map DonationDate g) \<noteq> [] \<Longrightarrow> dropna (map DonationDate considered) \<noteq> []"
  proof -
    assume "dropna (map DonationDate g) \<noteq> []"
    then have "set (dropna (map DonationDate g)) \<noteq> {}" by simp
    then obtain t r where "r \<in> set g" "DonationDate r = Some t"
      unfolding set_dropna_map by blast
    then have "t \<in> set (dropna (map DonationDate considered))"
      unfolding set_dropna_map g by auto
    then show ?thesis by auto
  qed
  have freq: "rfm_Frequency row = length g"
    by (simp add: row g series_count_group)
  have mon: "Monetary_EUR row = (\<Sum>r\<leftarrow>g. case AmountEUR r of None \<Rightarrow> 0 | Some a \<Rightarrow> a)"
    by (simp add: row series_sum_map)
  have rec: "Recency_days row =
              (if dropna (map DonationDate g) = [] then None
               else Some ((Max (set (dropna (map DonationDate considered))) + 86400
                    - Max (set (dropna (map DonationDate g)))) div 86400))"
    using sub by (simp add: row recency_Max)
  have e: "rfm_Email row = e" by (simp add: row)
  show ?thesis
    unfolding Let_def considered_def [symmetric] e g [symmetric]
    using ne freq mon rec by simp
qed

text \<open>In the example table the donor \<^verbatim>\<open>b@x\<close> has two successful rows, the later one
  dated 500000; the reference date is 1000000 plus one day.\<close>

theorem rfm_row_aggregates_witness:
  "\<lparr>rfm_Email = ''b@x'', Recency_days = Some 6, rfm_Frequency = 2, Monetary_EUR = 10\<rparr>
     \<in> set (rfm example_df) \<and>
   length (filter (\<lambda>r. Email r = Some ''b@x'')
      (filter (\<lambda>r. PaymentStatus r = Some Uspesna) example_df)) = 2 \<and>
   Max (set (dropna (map DonationDate (filter (\<lambda>r. PaymentStatus r = Some Uspesna) example_df))))
      + 86400 = 1086400 \<and>
   Max (set (dropna (map DonationDate (filter (\<lambda>r. Email r = Some ''b@x'')
      (filter (\<lambda>r. PaymentStatus r = Some Uspesna) example_df))))) = 500000 \<and>
   (1086400 - 500000) div 86400 = (6::int)"
proof -
  have h: "\<lparr>rfm_Email = ''b@x'', Recency_days = Some 6, rfm_Frequency = 2, Monetary_EUR = 10\<rparr>
     \<in> set (rfm example_df)"
    by (simp add: rfm_example)
  have m: "Max (set (dropna (map DonationDate (filter (\<lambda>r. PaymentStatus r = Some Uspesna) example_df))))
      + 86400 = 1086400"
    by (simp add: example_df_def blank_def Uspesna_def)
  have m2: "Max (set (dropna (map DonationDate (filter (\<lambda>r. Email r = Some ''b@x'')
      (filter (\<lambda>r. PaymentStatus r = Some Uspesna) example_df))))) = 500000"
    by (simp add: example_df_def blank_def Uspesna_def)
  from rfm_row_aggregates [OF h] have "length (filter (\<lambda>r. Email r = Some ''b@x'')
      (filter (\<lambda>r. PaymentStatus r = Some Uspesna) example_df)) = 2"
    unfolding Let_def by simp
  with h m m2 show ?thesis by simp
qed

text \<open>
  Claim C2. The donor identity of the RFM table is the \<^verbatim>\<open>Email\<close> field and nothing
  else: the table has no two rows with the same Email, its Emails are exactly the Email
  values present among the considered rows, and the row of an Email counts exactly the
  considered rows that carry this very Email, so rows with different Emails are never
  merged.
\<close>

theorem rfm_one_row_per_email:
  "distinct (map rfm_Email (rfm df)) \<and>
   set (map rfm_Email (rfm df)) =
     {e. \<exists>r\<in>set df. PaymentStatus r = Some Uspesna \<and> Email r = Some e} \<and>
   (\<forall>row\<in>set (rfm df). rfm_Frequency row =
      length (filter (\<lambda>r. PaymentStatus r = Some Uspesna \<and> Email r = Some (rfm_Email row)) df))"
proof -
  have keys: "map rfm_Email (rfm df) = map fst (groupby Email (successful df))"
    by (simp add: rfm_def rfm_agg_def comp_def case_prod_beta)
  have d: "distinct (map rfm_Email (rfm df))"
    unfolding keys by (rule distinct_groupby)
  have s: "set (map rfm_Email (rfm df)) =
     {e. \<exists>r\<in>set df. PaymentStatus r = Some Uspesna \<and> Email r = Some e}"
    unfolding keys set_groupby_keys by (auto simp: successful_def)
  have f: "rfm_Frequency row =
      length (filter (\<lambda>r. PaymentStatus r = Some Uspesna \<and> Email r = Some (rfm_Email row)) df)"
    if "row \<in> set (rfm df)" for row
  proof -
    from that obtain e g where eg: "(e, g) \<in> set (groupby Email (successful df))"
      and row: "rfm_Email row = e" "rfm_Frequency row = series_count (map Email g)"
      unfolding rfm_def in_rfm_agg by auto
    from eg have g: "g = filter (\<lambda>r. Email r = Some e) (successful df)"
      by (simp add: in_groupby)
    have "rfm_Frequency row = length (filter (\<lambda>r. Email r = Some e) (successful df))"
      unfolding row g by (rule series_count_group)
    also have "\<dots> = length (filter (\<lambda>r. PaymentStatus r = Some Uspesna \<and> Email r = Some e) df)"
      by (simp add: successful_def conj_commute)
    finally show ?thesis by (simp add: row)
  qed
  from d s f show ?thesis by blast
qed

theorem rfm_one_row_per_email_witness:
  "map rfm_Email (rfm example_df) = [''a@x'', ''b@x''] \<and>
   {e. \<exists>r\<in>set example_df. PaymentStatus r = Some Uspesna \<and> Email r = Some e} = {''a@x'', ''b@x''}"
  using rfm_one_row_per_email [of example_df] by (auto simp add: rfm_example)

section \<open>Campaign ranking\<close>

lemma groupby_sum_eq:
  "groupby_sum key df =
     map (\<lambda>k. (k, \<Sum>r\<leftarrow>filter (\<lambda>r. key r = Some k) df. case AmountEUR r of None \<Rightarrow> 0 | Some a \<Rightarrow> a))
         (sort (remdups (dropna (map key df))))"
  by (simp add: groupby_sum_def groupby_def series_sum_map comp_def)

lemma set_sort_values_desc [simp]: "set (sort_values_desc s) = set s"
  by (simp add: sort_values_desc_def)

lemma set_sort_values [simp]: "set (sort_values s) = set s"
  by (simp add: sort_values_def)

lemma length_sort_values [simp]: "length (sort_values s) = length s"
  by (simp add: sort_values_def)

lemma mset_sort_values_desc: "mset (sort_values_desc s) = mset s"
  by (simp add: sort_values_desc_def)

lemma distinct_keys_sort_values_desc:
  "distinct (map fst (sort_values_desc s)) = distinct (map fst s)"
proof -
  have "mset (map fst (sort_values_desc s)) = mset (map fst s)"
    by (simp add: mset_sort_values_desc)
  then show ?thesis by (rule mset_eq_imp_distinct_iff)
qed

lemma sorted_sort_values_desc: "sorted_wrt (\<lambda>a b. snd b \<le> snd a) (sort_values_desc s)"
proof -
  have "sorted (map snd (sort_key snd (rev s)))" by (rule sorted_sort_key)
  then have "sorted_wrt (\<lambda>a b. snd a \<le> snd b) (sort_key snd (rev s))"
    by (simp add: sorted_wrt_map)
  then show ?thesis
    by (simp add: sort_values_desc_def sorted_wrt_rev)
qed

lemma sorted_wrt_take_rest:
  assumes "sorted_wrt R xs" "x \<in> set (take n xs)" "y \<in> set xs" "y \<notin> set (take n xs)"
  shows "R x y"
proof -
  from assms(3,4) have "y \<in> set (drop n xs)"
    by (metis Un_iff append_take_drop_id set_append)
  moreover from assms(1) have "sorted_wrt R (take n xs @ drop n xs)" by simp
  then have "\<forall>a\<in>set (take n xs). \<forall>b\<in>set (drop n xs). R a b"
    unfolding sorted_wrt_append by blast
  ultimately show ?thesis using assms(2) by blast
qed

lemma sorted_wrt_drop_rest:
  assumes "sorted_wrt R xs" "y \<in> set (drop n xs)" "x \<in> set xs" "x \<notin> set (drop n xs)"
  shows "R x y"
proof -
  from assms(3,4) have "x \<in> set (take n xs)"
    by (metis Un_iff append_take_drop_id set_append)
  moreover from assms(1) have "sorted_wrt R (take n xs @ drop n xs)" by simp
  then have "\<forall>a\<in>set (take n xs). \<forall>b\<in>set (drop n xs). R a b"
    unfolding sorted_wrt_append by blast
  ultimately show ?thesis using assms(2) by blast
qed

text \<open>
  Claim C6. \<^verbatim>\<open>campaign_totals\<close> has one entry for every campaign, with the sum of the
  amounts of its rows. The top 5 are the first five entries of the totals in descending
  order, the bottom 5 the last five; with fewer than five campaigns both are all of
  them. Every campaign among the top 5 has a total at least as large as every campaign
  outside them, and every campaign among the bottom 5 a total at most as large as every
  campaign outside them.
\<close>

theorem campaign_ranking:
  "distinct (map fst (campaign_totals df)) \<and>
   set (campaign_totals df) =
     (\<lambda>c. (c, campaign_total df c)) ` {c. \<exists>r\<in>set df. Campaign r = Some c} \<and>
   set (top_5 df) \<subseteq> set (campaign_totals df) \<and>
   length (top_5 df) = min 5 (length (campaign_totals df)) \<and>
   (\<forall>(c, t)\<in>set (top_5 df). \<forall>(c', t')\<in>set (campaign_totals df) - set (top_5 df). t' \<le> t) \<and>
   set (bottom_5 df) \<subseteq> set (campaign_totals df) \<and>
   length (bottom_5 df) = min 5 (length (campaign_totals df)) \<and>
   (\<forall>(c, t)\<in>set (bottom_5 df). \<forall>(c', t')\<in>set (campaign_totals df) - set (bottom_5 df). t \<le> t')"
proof -
  let ?ct = "campaign_totals df"
  have d: "distinct (map fst ?ct)"
    unfolding campaign_totals_def distinct_keys_sort_values_desc
    by (simp add: groupby_sum_eq comp_def)
  have s: "set ?ct = (\<lambda>c. (c, campaign_total df c)) ` {c. \<exists>r\<in>set df. Campaign r = Some c}"
    by (simp add: campaign_totals_def groupby_sum_eq set_dropna_map campaign_total_def)
  have srt: "sorted_wrt (\<lambda>a b. snd b \<le> snd a) ?ct"
    unfolding campaign_totals_def by (rule sorted_sort_values_desc)
  have t1: "set (top_5 df) = set (take 5 ?ct)" by (simp add: top_5_def head_def)
  have b1: "set (bottom_5 df) = set (drop (length ?ct - 5) ?ct)" by (simp add: bottom_5_def tail_def)
  have t2: "set (top_5 df) \<subseteq> set ?ct" unfolding t1 by (rule set_take_subset)
  have b2: "set (bottom_5 df) \<subseteq> set ?ct" unfolding b1 by (rule set_drop_subset)
  have t3: "length (top_5 df) = min 5 (length ?ct)" by (simp add: top_5_def head_def min.commute)
  have b3: "length (bottom_5 df) = min 5 (length ?ct)" by (simp add: bottom_5_def tail_def)
  have t4: "\<forall>(c, t)\<in>set (top_5 df). \<forall>(c', t')\<in>set ?ct - set (top_5 df). t' \<le> t"
    unfolding t1 using sorted_wrt_take_rest [OF srt] by fastforce
  have b4: "\<forall>(c, t)\<in>set (bottom_5 df). \<forall>(c', t')\<in>set ?ct - set (bottom_5 df). t \<le> t'"
    unfolding b1 using sorted_wrt_drop_rest [OF srt] by fastforce
  from d s t2 t3 t4 b2 b3 b4 show ?thesis by blast
qed

lemma campaigns_example:
  "campaign_totals campaigns_df =
     [(''c3'', 70), (''c5'', 60), (''c6'', 50), (''c7'', 40), (''c1'', 30), (''c4'', 20), (''c2'', 10)]"
  "top_5 campaigns_df = [(''c1'', 30), (''c7'', 40), (''c6'', 50), (''c5'', 60), (''c3'', 70)]"
  "bottom_5 campaigns_df = [(''c2'', 10), (''c4'', 20), (''c1'', 30), (''c7'', 40), (''c6'', 50)]"
  by code_simp+

theorem campaign_ranking_witness:
  "campaign_totals campaigns_df =
     [(''c3'', 70), (''c5'', 60), (''c6'', 50), (''c7'', 40), (''c1'', 30), (''c4'', 20), (''c2'', 10)] \<and>
   top_5 campaigns_df = [(''c1'', 30), (''c7'', 40), (''c6'', 50), (''c5'', 60), (''c3'', 70)] \<and>
   bottom_5 campaigns_df = [(''c2'', 10), (''c4'', 20), (''c1'', 30), (''c7'', 40), (''c6'', 50)] \<and>
   set (campaign_totals campaigns_df) - set (top_5 campaigns_df) = {(''c4'', 20), (''c2'', 10)} \<and>
   set (campaign_totals campaigns_df) - set (bottom_5 campaigns_df) = {(''c3'', 70), (''c5'', 60)} \<and>
   campaign_total campaigns_df ''c7'' = 40"
proof -
  have "(''c7'', campaign_total campaigns_df ''c7'') \<in> set (campaign_totals campaigns_df)"
    using campaign_ranking [of campaigns_df] by (auto simp: campaigns_df_def blank_def)
  then have "campaign_total campaigns_df ''c7'' = 40"
    by (simp add: campaigns_example)
  then show ?thesis by (auto simp add: campaigns_example)
qed

section \<open>Monthly totals\<close>

lemma resample_bin:
  "series_sum (map snd (filter (\<lambda>(t, a). map_option month_of t = Some k)
       (map (\<lambda>r. (DonationDate r, AmountEUR r)) df))) = month_total df k"
proof -
  have "map snd (filter (\<lambda>(t, a). map_option month_of t = Some k)
       (map (\<lambda>r. (DonationDate r, AmountEUR r)) df))
      = map AmountEUR (filter (\<lambda>r. map_option month_of (DonationDate r) = Some k) df)"
    by (induction df) auto
  then show ?thesis by (simp add: month_total_def series_sum_map)
qed

lemma resample_monthly:
  "resample_ME_sum (map (\<lambda>r. (DonationDate r, AmountEUR r)) df) =
     (let ms = dropna (map (\<lambda>r. map_option month_of (DonationDate r)) df)
      in if df = [] then Inr []
         else if ms = [] then Inl ValueError
         else Inr (map (\<lambda>k. (k, month_total df k)) [Min (set ms)..Max (set ms)]))"
  unfolding resample_ME_sum_def resample_bin series_min_Min series_max_Max
  by (simp add: comp_def Let_def)

lemma monthly_donations_eq:
  "monthly_donations df =
     (let ms = dropna (map (\<lambda>r. map_option month_of (DonationDate r)) df)
      in if df = [] then Inr []
         else if ms = [] then Inl ValueError
         else Inr (map (\<lambda>k. (strftime_Ym k, month_total df k)) [Min (set ms)..Max (set ms)]))"
  by (simp add: monthly_donations_def resample_monthly Let_def comp_def)

text \<open>
  Claim C5. The trend over time is \<^verbatim>\<open>resample("ME").sum()\<close> of the amounts, indexed
  by the donation dates and labelled by year and month. For a table in which some row
  has a date, the chart exists; every row with a date finds the label of its month in
  the chart, with the total of that month; and every entry of the chart is the label of
  a month with the total of that month, the sum of the amounts of all rows whose date
  falls in it. A month between the first and the last one that has no row has the
  total 0.
\<close>

theorem monthly_donations_sums:
  assumes "r0 \<in> set df" and "DonationDate r0 \<noteq> None"
  shows "\<exists>chart. monthly_donations df = Inr chart \<and>
     (\<forall>r\<in>set df. \<forall>t. DonationDate r = Some t \<longrightarrow>
        (strftime_Ym (month_of t), month_total df (month_of t)) \<in> set chart) \<and>
     (\<forall>(label, total)\<in>set chart. \<exists>k. label = strftime_Ym k \<and> total = month_total df k)"
proof -
  define ms where "ms = dropna (map (\<lambda>r. map_option month_of (DonationDate r)) df)"
  define chart where
    "chart = map (\<lambda>k. (strftime_Ym k, month_total df k)) [Min (set ms)..Max (set ms)]"
  have in_ms: "month_of t \<in> set ms" if "r \<in> set df" "DonationDate r = Some t" for r t
    using that unfolding ms_def set_dropna_map by force
  from assms obtain t0 where "DonationDate r0 = Some t0" by auto
  with assms(1) have "month_of t0 \<in> set ms" by (rule in_ms)
  then have ne: "ms \<noteq> []" by auto
  from assms(1) have dne: "df \<noteq> []" by auto
  have md: "monthly_donations df = Inr chart"
    using ne dne by (simp add: monthly_donations_eq ms_def [symmetric] chart_def Let_def)
  have a: "(strftime_Ym (month_of t), month_total df (month_of t)) \<in> set chart"
    if "r \<in> set df" "DonationDate r = Some t" for r t
  proof -
    from that have m: "month_of t \<in> set ms" by (rule in_ms)
    then have "Min (set ms) \<le> month_of t" "month_of t \<le> Max (set ms)" by simp_all
    then show ?thesis by (auto simp: chart_def)
  qed
  have b: "\<exists>k. label = strftime_Ym k \<and> total = month_total df k"
    if "(label, total) \<in> set chart" for label total
    using that by (auto simp: chart_def)
  from md a b show ?thesis by blast
qed

lemma month_examples:
  "strftime_Ym (month_of 1709287200) = ''2024-03''"
  "month_total example_loaded (month_of 1709287200) = 21 / 2"
  "monthly_donations example_loaded = Inr [(''2024-03'', 21 / 2), (''2024-04'', 7)]"
  by code_simp+

theorem monthly_donations_sums_witness:
  "example_loaded ! 0 \<in> set example_loaded \<and>
   DonationDate (example_loaded ! 0) = Some 1709287200 \<and>
   strftime_Ym (month_of 1709287200) = ''2024-03'' \<and>
   month_total example_loaded (month_of 1709287200) = 21 / 2 \<and>
   monthly_donations example_loaded = Inr [(''2024-03'', 21 / 2), (''2024-04'', 7)]"
proof -
  have r: "example_loaded ! 0 \<in> set example_loaded"
    and d: "DonationDate (example_loaded ! 0) = Some 1709287200"
    by (simp_all add: example_loaded_def)
  from d have d': "DonationDate (example_loaded ! 0) \<noteq> None" by simp
  from monthly_donations_sums [OF r d'] r d
  have "(strftime_Ym (month_of 1709287200), month_total example_loaded (month_of 1709287200))
          \<in> set [(''2024-03'', 21 / 2), (''2024-04'', 7::rat)]"
    unfolding month_examples(3) by blast
  with r d show ?thesis by (simp add: month_examples)
qed

section \<open>Which rows the aggregates see\<close>

lemma groupby_sum_update:
  assumes "\<And>r. key (u r) = key r" "\<And>r. AmountEUR (u r) = AmountEUR r"
  shows "groupby_sum key (map u df) = groupby_sum key df"
  by (simp add: groupby_sum_eq filter_map comp_def assms)

text \<open>What each aggregate holds, in terms of the rows of the table.\<close>

lemma length_groupby_sum:
  "length (groupby_sum key df) = card {k. \<exists>r\<in>set df. key r = Some k}"
proof -
  have "length (groupby_sum key df) = length (remdups (dropna (map key df)))"
    by (simp add: groupby_sum_eq)
  also have "\<dots> = card (set (dropna (map key df)))"
    by (simp add: length_remdups_card_conv)
  finally show ?thesis by (simp add: set_dropna_map)
qed

lemma length_sort_values_desc [simp]: "length (sort_values_desc s) = length s"
  by (simp add: sort_values_desc_def)

lemma set_groupby_sum:
  "set (groupby_sum key df) =
     (\<lambda>k. (k, \<Sum>r\<leftarrow>filter (\<lambda>r. key r = Some k) df. case AmountEUR r of None \<Rightarrow> 0 | Some a \<Rightarrow> a)) `
       {k. \<exists>r\<in>set df. key r = Some k}"
  by (simp add: groupby_sum_eq set_dropna_map)

lemma distinct_groupby_sum: "distinct (map fst (groupby_sum key df))"
  by (simp add: groupby_sum_eq comp_def)

lemma set_value_counts:
  "set (value_counts (map key df)) =
     (\<lambda>v. (v, length (filter (\<lambda>r. key r = Some v) df))) ` {v. \<exists>r\<in>set df. key r = Some v}"
proof -
  have "length (filter (\<lambda>x. x = Some v) (map key df)) = length (filter (\<lambda>r. key r = Some v) df)" for v
    by (simp add: filter_map comp_def)
  then show ?thesis
    by (simp add: value_counts_def set_dropna_map)
qed

lemma distinct_value_counts: "distinct (map fst (value_counts xs))"
  unfolding value_counts_def distinct_keys_sort_values_desc
  by (simp add: comp_def)

lemma rfm_rows:
  assumes "row \<in> set (rfm df)"
  shows "(\<exists>r\<in>set df. PaymentStatus r = Some Uspesna \<and> Email r = Some (rfm_Email row)) \<and>
     rfm_Frequency row =
       length (filter (\<lambda>r. PaymentStatus r = Some Uspesna \<and> Email r = Some (rfm_Email row)) df) \<and>
     Monetary_EUR row =
       (\<Sum>r\<leftarrow>filter (\<lambda>r. PaymentStatus r = Some Uspesna \<and> Email r = Some (rfm_Email row)) df.
          case AmountEUR r of None \<Rightarrow> 0 | Some a \<Rightarrow> a) \<and>
     Recency_days row =
       recency (today (filter (\<lambda>r. PaymentStatus r = Some Uspesna) df))
         (map DonationDate
            (filter (\<lambda>r. PaymentStatus r = Some Uspesna \<and> Email r = Some (rfm_Email row)) df))"
proof -
  let ?s = "filter (\<lambda>r. PaymentStatus r = Some Uspesna) df"
  from assms obtain e g where g: "(e, g) \<in> set (groupby Email ?s)"
    and row: "row = \<lparr>rfm_Email = e, Recency_days = recency (today ?s) (map DonationDate g),
               rfm_Frequency = series_count (map Email g),
               Monetary_EUR = series_sum (map AmountEUR g)\<rparr>"
    unfolding rfm_def successful_def in_rfm_agg by blast
  from g have ex: "\<exists>r\<in>set ?s. Email r = Some e" and ge: "g = filter (\<lambda>r. Email r = Some e) ?s"
    unfolding in_groupby by simp_all
  have ge': "g = filter (\<lambda>r. PaymentStatus r = Some Uspesna \<and> Email r = Some e) df"
    unfolding ge by (simp add: conj_commute)
  have c: "series_count (map Email g) = length g"
    unfolding ge by (rule series_count_group)
  from ex have "\<exists>r\<in>set df. PaymentStatus r = Some Uspesna \<and> Email r = Some e" by auto
  then show ?thesis
    unfolding row using c by (simp add: series_sum_map ge' [symmetric])
qed

lemma rfm_emails:
  "distinct (map rfm_Email (rfm df))"
  "set (map rfm_Email (rfm df)) =
     {e. \<exists>r\<in>set df. PaymentStatus r = Some Uspesna \<and> Email r = Some e}"
proof -
  have m: "map rfm_Email (rfm df) = map fst (groupby Email (successful df))"
    by (simp add: rfm_def rfm_agg_def comp_def case_prod_beta)
  show "distinct (map rfm_Email (rfm df))"
    unfolding m by (rule distinct_groupby)
  show "set (map rfm_Email (rfm df)) =
     {e. \<exists>r\<in>set df. PaymentStatus r = Some Uspesna \<and> Email r = Some e}"
    unfolding m set_groupby_keys by (auto simp: successful_def)
qed

lemma monthly_chart:
  assumes "\<exists>r\<in>set df. DonationDate r \<noteq> None"
  shows "\<exists>chart. monthly_donations df = Inr chart \<and>
     (\<forall>r\<in>set df. \<forall>t. DonationDate r = Some t \<longrightarrow>
        (strftime_Ym (month_of t), month_total df (month_of t)) \<in> set chart) \<and>
     (\<forall>(label, total)\<in>set chart. \<exists>k. label = strftime_Ym k \<and> total = month_total df k)"
proof -
  define ms where "ms = dropna (map (\<lambda>r. map_option month_of (DonationDate r)) df)"
  define chart where
    "chart = map (\<lambda>k. (strftime_Ym k, month_total df k)) [Min (set ms)..Max (set ms)]"
  have in_ms: "month_of t \<in> set ms" if "r \<in> set df" "DonationDate r = Some t" for r t
    using that unfolding ms_def set_dropna_map by force
  from assms obtain r0 t0 where r0: "r0 \<in> set df" "DonationDate r0 = Some t0" by auto
  then have "month_of t0 \<in> set ms" by (rule in_ms)
  then have ne: "ms \<noteq> []" by auto
  from r0(1) have dne: "df \<noteq> []" by auto
  have md: "monthly_donations df = Inr chart"
    using ne dne by (simp add: monthly_donations_eq ms_def [symmetric] chart_def Let_def)
  have a: "(strftime_Ym (month_of t), month_total df (month_of t)) \<in> set chart"
    if "r \<in> set df" "DonationDate r = Some t" for r t
  proof -
    from that have m: "month_of t \<in> set ms" by (rule in_ms)
    then have "Min (set ms) \<le> month_of t" "month_of t \<le> Max (set ms)" by simp_all
    then show ?thesis by (auto simp: chart_def)
  qed
  have b: "\<exists>k. label = strftime_Ym k \<and> total = month_total df k"
    if "(label, total) \<in> set chart" for label total
    using that by (auto simp: chart_def)
  from md a b show ?thesis by blast
qed

text \<open>
  Claim C10. The RFM table is computed from the rows whose \<^verbatim>\<open>PaymentStatus\<close> is the
  Slovak word for successful, and from no other row: two tables with the same successful
  rows have the same RFM table; its donors are the Emails of the successful rows, each
  once; and the frequency, the monetary value and the recency of a donor are the number,
  the sum of the amounts and the recency of the successful rows of that Email. Every
  other aggregate is computed from all rows, whatever their status. The monthly chart
  (it exists when some row has a date) holds the month of every dated row, and each of
  its entries is a month with the sum of the amounts of all rows of that month. The
  campaign totals hold every campaign of a row once, with the sum of the amounts of all
  its rows; the top 5 and the bottom 5 are five of these entries, or as many as there
  are campaigns. The frequency counts and the donor type counts hold every value of a
  row once, with the number of all rows of that value; the donation sums hold every
  donor type once, with the sum of the amounts of all its rows. None of them reads
  \<^verbatim>\<open>PaymentStatus\<close>: each stays the same when the status of the rows is replaced by
  anything else.
\<close>

theorem rfm_successful_others_all:
  "(\<forall>df'. filter (\<lambda>r. PaymentStatus r = Some Uspesna) df' =
           filter (\<lambda>r. PaymentStatus r = Some Uspesna) df \<longrightarrow> rfm df' = rfm df) \<and>
   distinct (map rfm_Email (rfm df)) \<and>
   set (map rfm_Email (rfm df)) =
     {e. \<exists>r\<in>set df. PaymentStatus r = Some Uspesna \<and> Email r = Some e} \<and>
   (\<forall>row\<in>set (rfm df).
      rfm_Frequency row =
        length (filter (\<lambda>r. PaymentStatus r = Some Uspesna \<and> Email r = Some (rfm_Email row)) df) \<and>
      Monetary_EUR row =
        (\<Sum>r\<leftarrow>filter (\<lambda>r. PaymentStatus r = Some Uspesna \<and> Email r = Some (rfm_Email row)) df.
           case AmountEUR r of None \<Rightarrow> 0 | Some a \<Rightarrow> a) \<and>
      Recency_days row =
        recency (today (filter (\<lambda>r. PaymentStatus r = Some Uspesna) df))
          (map DonationDate
             (filter (\<lambda>r. PaymentStatus r = Some Uspesna \<and> Email r = Some (rfm_Email row)) df))) \<and>
   ((\<exists>r\<in>set df. DonationDate r \<noteq> None) \<longrightarrow>
      (\<exists>chart. monthly_donations df = Inr chart \<and>
         (\<forall>r\<in>set df. \<forall>t. DonationDate r = Some t \<longrightarrow>
            (strftime_Ym (month_of t), month_total df (month_of t)) \<in> set chart) \<and>
         (\<forall>(label, total)\<in>set chart. \<exists>k. label = strftime_Ym k \<and> total = month_total df k))) \<and>
   distinct (map fst (campaign_totals df)) \<and>
   set (campaign_totals df) =
     (\<lambda>c. (c, campaign_total df c)) ` {c. \<exists>r\<in>set df. Campaign r = Some c} \<and>
   length (top_5 df) = min 5 (card {c. \<exists>r\<in>set df. Campaign r = Some c}) \<and>
   set (top_5 df) \<subseteq> (\<lambda>c. (c, campaign_total df c)) ` {c. \<exists>r\<in>set df. Campaign r = Some c} \<and>
   length (bottom_5 df) = min 5 (card {c. \<exists>r\<in>set df. Campaign r = Some c}) \<and>
   set (bottom_5 df) \<subseteq> (\<lambda>c. (c, campaign_total df c)) ` {c. \<exists>r\<in>set df. Campaign r = Some c} \<and>
   distinct (map fst (freq_counts df)) \<and>
   set (freq_counts df) =
     (\<lambda>v. (v, length (filter (\<lambda>r. Frequency r = Some v) df))) `
       {v. \<exists>r\<in>set df. Frequency r = Some v} \<and>
   distinct (map fst (donor_counts df)) \<and>
   set (donor_counts df) =
     (\<lambda>v. (v, length (filter (\<lambda>r. DonorType r = Some v) df))) `
       {v. \<exists>r\<in>set df. DonorType r = Some v} \<and>
   distinct (map fst (donation_sums df)) \<and>
   set (donation_sums df) =
     (\<lambda>v. (v, \<Sum>r\<leftarrow>filter (\<lambda>r. DonorType r = Some v) df.
                 case AmountEUR r of None \<Rightarrow> 0 | Some a \<Rightarrow> a)) `
       {v. \<exists>r\<in>set df. DonorType r = Some v} \<and>
   (let df' = map (\<lambda>r. r\<lparr>PaymentStatus := f r\<rparr>) df
    in monthly_donations df' = monthly_donations df \<and>
       campaign_totals df' = campaign_totals df \<and>
       top_5 df' = top_5 df \<and>
       bottom_5 df' = bottom_5 df \<and>
       freq_counts df' = freq_counts df \<and>
       donor_counts df' = donor_counts df \<and>
       donation_sums df' = donation_sums df)"
proof -
  let ?C = "(\<lambda>c. (c, campaign_total df c)) ` {c. \<exists>r\<in>set df. Campaign r = Some c}"
  let ?ct = "campaign_totals df"
  have r1: "\<forall>df'. filter (\<lambda>r. PaymentStatus r = Some Uspesna) df' =
           filter (\<lambda>r. PaymentStatus r = Some Uspesna) df \<longrightarrow> rfm df' = rfm df"
    by (simp add: rfm_def successful_def)
  note r2 = rfm_emails(1) [of df]
  note r3 = rfm_emails(2) [of df]
  have r4: "\<forall>row\<in>set (rfm df).
      rfm_Frequency row =
        length (filter (\<lambda>r. PaymentStatus r = Some Uspesna \<and> Email r = Some (rfm_Email row)) df) \<and>
      Monetary_EUR row =
        (\<Sum>r\<leftarrow>filter (\<lambda>r. PaymentStatus r = Some Uspesna \<and> Email r = Some (rfm_Email row)) df.
           case AmountEUR r of None \<Rightarrow> 0 | Some a \<Rightarrow> a) \<and>
      Recency_days row =
        recency (today (filter (\<lambda>r. PaymentStatus r = Some Uspesna) df))
          (map DonationDate
             (filter (\<lambda>r. PaymentStatus r = Some Uspesna \<and> Email r = Some (rfm_Email row)) df))"
  proof (rule ballI)
    fix row assume "row \<in> set (rfm df)"
    from rfm_rows [OF this, THEN conjunct2]
    show "rfm_Frequency row =
        length (filter (\<lambda>r. PaymentStatus r = Some Uspesna \<and> Email r = Some (rfm_Email row)) df) \<and>
      Monetary_EUR row =
        (\<Sum>r\<leftarrow>filter (\<lambda>r. PaymentStatus r = Some Uspesna \<and> Email r = Some (rfm_Email row)) df.
           case AmountEUR r of None \<Rightarrow> 0 | Some a \<Rightarrow> a) \<and>
      Recency_days row =
        recency (today (filter (\<lambda>r. PaymentStatus r = Some Uspesna) df))
          (map DonationDate
             (filter (\<lambda>r. PaymentStatus r = Some Uspesna \<and> Email r = Some (rfm_Email row)) df))" .
  qed
  have m: "(\<exists>r\<in>set df. DonationDate r \<noteq> None) \<longrightarrow>
      (\<exists>chart. monthly_donations df = Inr chart \<and>
         (\<forall>r\<in>set df. \<forall>t. DonationDate r = Some t \<longrightarrow>
            (strftime_Ym (month_of t), month_total df (month_of t)) \<in> set chart) \<and>
         (\<forall>(label, total)\<in>set chart. \<exists>k. label = strftime_Ym k \<and> total = month_total df k))"
    by (rule impI) (rule monthly_chart)
  have c1: "distinct (map fst ?ct)"
    unfolding campaign_totals_def distinct_keys_sort_values_desc by (rule distinct_groupby_sum)
  have c2: "set ?ct = ?C"
    by (simp add: campaign_totals_def set_groupby_sum campaign_total_def)
  have cl: "length ?ct = card {c. \<exists>r\<in>set df. Campaign r = Some c}"
    by (simp add: campaign_totals_def length_groupby_sum)
  have t1: "length (top_5 df) = min 5 (card {c. \<exists>r\<in>set df. Campaign r = Some c})"
    by (simp add: top_5_def head_def min.commute cl)
  have "set (top_5 df) \<subseteq> set ?ct"
    unfolding top_5_def head_def set_sort_values by (rule set_take_subset)
  then have t2: "set (top_5 df) \<subseteq> ?C" unfolding c2 .
  have b1: "length (bottom_5 df) = min 5 (card {c. \<exists>r\<in>set df. Campaign r = Some c})"
    using cl by (simp add: bottom_5_def tail_def)
  have "set (bottom_5 df) \<subseteq> set ?ct"
    unfolding bottom_5_def tail_def set_sort_values by (rule set_drop_subset)
  then have b2: "set (bottom_5 df) \<subseteq> ?C" unfolding c2 .
  have f1: "distinct (map fst (freq_counts df))"
    unfolding freq_counts_def by (rule distinct_value_counts)
  have f2: "set (freq_counts df) =
     (\<lambda>v. (v, length (filter (\<lambda>r. Frequency r = Some v) df))) `
       {v. \<exists>r\<in>set df. Frequency r = Some v}"
    unfolding freq_counts_def by (rule set_value_counts)
  have d1: "distinct (map fst (donor_counts df))"
    unfolding donor_counts_def by (rule distinct_value_counts)
  have d2: "set (donor_counts df) =
     (\<lambda>v. (v, length (filter (\<lambda>r. DonorType r = Some v) df))) `
       {v. \<exists>r\<in>set df. DonorType r = Some v}"
    unfolding donor_counts_def by (rule set_value_counts)
  have s1: "distinct (map fst (donation_sums df))"
    unfolding donation_sums_def distinct_keys_sort_values_desc by (rule distinct_groupby_sum)
  have s2: "set (donation_sums df) =
     (\<lambda>v. (v, \<Sum>r\<leftarrow>filter (\<lambda>r. DonorType r = Some v) df.
                 case AmountEUR r of None \<Rightarrow> 0 | Some a \<Rightarrow> a)) `
       {v. \<exists>r\<in>set df. DonorType r = Some v}"
    by (simp add: donation_sums_def set_groupby_sum)
  let ?u = "\<lambda>r. r\<lparr>PaymentStatus := f r\<rparr>"
  have gc: "groupby_sum Campaign (map ?u df) = groupby_sum Campaign df"
    by (rule groupby_sum_update) simp_all
  have gt: "groupby_sum DonorType (map ?u df) = groupby_sum DonorType df"
    by (rule groupby_sum_update) simp_all
  have ct: "campaign_totals (map ?u df) = campaign_totals df"
    by (simp add: campaign_totals_def gc)
  have i: "let df' = map ?u df
    in monthly_donations df' = monthly_donations df \<and>
       campaign_totals df' = campaign_totals df \<and>
       top_5 df' = top_5 df \<and>
       bottom_5 df' = bottom_5 df \<and>
       freq_counts df' = freq_counts df \<and>
       donor_counts df' = donor_counts df \<and>
       donation_sums df' = donation_sums df"
    by (simp add: Let_def monthly_donations_def comp_def ct top_5_def
        bottom_5_def freq_counts_def donor_counts_def donation_sums_def gt)
  show ?thesis
    by (intro conjI) (fact r1 r2 r3 r4 m c1 c2 t1 t2 b1 b2 f1 f2 d1 d2 s1 s2 i)+
qed

lemma rfm_loaded:
  "rfm example_loaded =
     [\<lparr>rfm_Email = ''a@x'', Recency_days = Some 14, rfm_Frequency = 1, Monetary_EUR = 21 / 2\<rparr>,
      \<lparr>rfm_Email = ''b@x'', Recency_days = Some 1, rfm_Frequency = 1, Monetary_EUR = 0\<rparr>]"
  "campaign_totals example_loaded = [(''Voda, jedlo'', 21 / 2), (''Skoly'', 7)]"
  "freq_counts example_loaded = [(''Jednorazovo'', 2), (''Mesacne'', 1)]"
  "donor_counts example_loaded = [(''FO'', 2), (''PO'', 1)]"
  "donation_sums example_loaded = [(''FO'', 21 / 2), (''PO'', 7)]"
  by code_simp+

text \<open>In the loaded example file the third donation failed. Its amount 7 is the total
  of its campaign and it is one of the two donations counted for its frequency; it is
  no part of the RFM table, which is that of the first two rows alone and counts one
  successful donation for its donor.\<close>

theorem rfm_successful_others_all_witness:
  "PaymentStatus (example_loaded ! 2) = Some ''Zlyhala'' \<and>
   Email (example_loaded ! 2) = Some ''b@x'' \<and>
   AmountEUR (example_loaded ! 2) = Some 7 \<and>
   Frequency (example_loaded ! 2) = Some ''Jednorazovo'' \<and>
   rfm example_loaded =
     [\<lparr>rfm_Email = ''a@x'', Recency_days = Some 14, rfm_Frequency = 1, Monetary_EUR = 21 / 2\<rparr>,
      \<lparr>rfm_Email = ''b@x'', Recency_days = Some 1, rfm_Frequency = 1, Monetary_EUR = 0\<rparr>] \<and>
   rfm (take 2 example_loaded) = rfm example_loaded \<and>
   length (filter (\<lambda>r. PaymentStatus r = Some Uspesna \<and> Email r = Some ''b@x'') example_loaded) = 1 \<and>
   campaign_totals example_loaded = [(''Voda, jedlo'', 21 / 2), (''Skoly'', 7)] \<and>
   campaign_total example_loaded ''Skoly'' = 7 \<and>
   freq_counts example_loaded = [(''Jednorazovo'', 2), (''Mesacne'', 1)] \<and>
   length (filter (\<lambda>r. Frequency r = Some ''Jednorazovo'') example_loaded) = 2 \<and>
   donor_counts example_loaded = [(''FO'', 2), (''PO'', 1)] \<and>
   donation_sums example_loaded = [(''FO'', 21 / 2), (''PO'', 7)] \<and>
   campaign_totals (map (\<lambda>r. r\<lparr>PaymentStatus := None\<rparr>) example_loaded) =
     [(''Voda, jedlo'', 21 / 2), (''Skoly'', 7)]"
proof -
  note t1 = rfm_successful_others_all [of example_loaded "\<lambda>r. None", THEN conjunct1]
  note t4 = rfm_successful_others_all [of example_loaded "\<lambda>r. None", THEN conjunct2, THEN conjunct2, THEN conjunct2, THEN conjunct1]
  note t7 = rfm_successful_others_all [of example_loaded "\<lambda>r. None", THEN conjunct2, THEN conjunct2, THEN conjunct2, THEN conjunct2, THEN conjunct2, THEN conjunct2, THEN conjunct1]
  note t13 = rfm_successful_others_all [of example_loaded "\<lambda>r. None", THEN conjunct2, THEN conjunct2, THEN conjunct2, THEN conjunct2, THEN conjunct2, THEN conjunct2, THEN conjunct2, THEN conjunct2, THEN conjunct2, THEN conjunct2, THEN conjunct2, THEN conjunct2, THEN conjunct1]
  note t18 = rfm_successful_others_all [of example_loaded "\<lambda>r. None", THEN conjunct2, THEN conjunct2, THEN conjunct2, THEN conjunct2, THEN conjunct2, THEN conjunct2, THEN conjunct2, THEN conjunct2, THEN conjunct2, THEN conjunct2, THEN conjunct2, THEN conjunct2, THEN conjunct2, THEN conjunct2, THEN conjunct2, THEN conjunct2, THEN conjunct2]
  have e: "PaymentStatus (example_loaded ! 2) = Some ''Zlyhala''"
    "Email (example_loaded ! 2) = Some ''b@x''"
    "AmountEUR (example_loaded ! 2) = Some 7"
    "Frequency (example_loaded ! 2) = Some ''Jednorazovo''"
    by (simp_all add: example_loaded_def)
  have "filter (\<lambda>r. PaymentStatus r = Some Uspesna) (take 2 example_loaded) =
        filter (\<lambda>r. PaymentStatus r = Some Uspesna) example_loaded"
    by (simp add: example_loaded_def Uspesna_def)
  with t1 have a: "rfm (take 2 example_loaded) = rfm example_loaded" by blast
  have "\<lparr>rfm_Email = ''b@x'', Recency_days = Some 1, rfm_Frequency = 1, Monetary_EUR = 0\<rparr>
          \<in> set (rfm example_loaded)"
    by (simp add: rfm_loaded)
  from t4 [rule_format, OF this]
  have b: "length (filter (\<lambda>r. PaymentStatus r = Some Uspesna \<and> Email r = Some ''b@x'')
      example_loaded) = 1"
    by simp
  have "\<exists>r\<in>set example_loaded. Campaign r = Some ''Skoly''"
    by (simp add: example_loaded_def)
  then have "(''Skoly'', campaign_total example_loaded ''Skoly'') \<in> set (campaign_totals example_loaded)"
    unfolding t7 by blast
  then have c: "campaign_total example_loaded ''Skoly'' = 7"
    by (simp add: rfm_loaded)
  have "\<exists>r\<in>set example_loaded. Frequency r = Some ''Jednorazovo''"
    by (simp add: example_loaded_def)
  then have "(''Jednorazovo'', length (filter (\<lambda>r. Frequency r = Some ''Jednorazovo'') example_loaded))
      \<in> set (freq_counts example_loaded)"
    unfolding t13 by blast
  then have d: "length (filter (\<lambda>r. Frequency r = Some ''Jednorazovo'') example_loaded) = 2"
    by (simp add: rfm_loaded)
  from t18 have i: "campaign_totals (map (\<lambda>r. r\<lparr>PaymentStatus := None\<rparr>) example_loaded) =
     [(''Voda, jedlo'', 21 / 2), (''Skoly'', 7)]"
    by (simp add: Let_def rfm_loaded)
  from e a b c d i show ?thesis by (simp add: rfm_loaded)
qed

section \<open>What the dashboard renders\<close>

text \<open>
  Claim C7, as the code has it. For a loaded table in which some row has a date the
  script renders seven charts and tables, in this order: the monthly totals, the top 5
  and the bottom 5 of the campaign totals, the frequency counts, the donor type counts,
  the donor type sums and the RFM table. These are six aggregates; the campaign totals
  are shown twice.
\<close>

theorem dashboard_seven_visuals:
  assumes "load_data strptime to_float uploaded_file = Inr df"
    and "r \<in> set df" and "DonationDate r \<noteq> None"
  shows "\<exists>out monthly. app strptime to_float (Some uploaded_file) = Inr out \<and>
           monthly_donations df = Inr monthly \<and>
           filter is_visual out =
             [St_bar_chart (Amounts monthly),
              St_altair_chart (Amounts (top_5 df)),
              St_altair_chart (Amounts (bottom_5 df)),
              St_altair_chart (Counts (freq_counts df)),
              St_bar_chart (Counts (donor_counts df)),
              St_bar_chart (Amounts (donation_sums df)),
              St_dataframe (Table (sort_by_Monetary_desc (rfm df)))]"
proof -
  from assms(2,3) have ne: "df \<noteq> []"
    and ms: "dropna (map (\<lambda>r. map_option month_of (DonationDate r)) df) \<noteq> []"
    using set_dropna_map [of "\<lambda>r. map_option month_of (DonationDate r)" df]
    by (force simp flip: set_empty)+
  then obtain monthly where m: "monthly_donations df = Inr monthly"
    by (simp add: monthly_donations_eq Let_def)
  with assms(1) ne show ?thesis
    by (simp add: app_def dashboard_visuals_def)
qed

theorem dashboard_seven_visuals_witness:
  "load_data strptime_dmY_HMS decimal example_file = Inr example_loaded \<and>
   example_loaded ! 0 \<in> set example_loaded \<and>
   DonationDate (example_loaded ! 0) = Some 1709287200 \<and>
   (\<exists>out. app strptime_dmY_HMS decimal (Some example_file) = Inr out \<and>
          length (filter is_visual out) = 7)"
proof -
  have r: "example_loaded ! 0 \<in> set example_loaded"
    and d: "DonationDate (example_loaded ! 0) = Some 1709287200"
    by (simp_all add: example_loaded_def)
  from d have d': "DonationDate (example_loaded ! 0) \<noteq> None" by simp
  from dashboard_seven_visuals [OF load_example r d']
  obtain out where "app strptime_dmY_HMS decimal (Some example_file) = Inr out"
    and "length (filter is_visual out) = 7"
    by auto
  with load_example r d show ?thesis by blast
qed

text \<open>The claim as it was stated, five aggregates with one chart or table each, fails
  on the example file: seven charts and tables are rendered.\<close>

theorem dashboard_not_five_visuals:
  "load_data strptime_dmY_HMS decimal example_file = Inr example_loaded \<and>
   example_loaded \<noteq> [] \<and>
   app strptime_dmY_HMS decimal (Some example_file) =
     Inr [St_success,
          St_subheader ''Total Donation Amount by Month'',
          St_bar_chart (Amounts [(''2024-03'', 21 / 2), (''2024-04'', 7)]),
          St_subheader ''Top 5 Campaigns by Donation Amount'',
          St_altair_chart (Amounts (top_5 example_loaded)),
          St_subheader ''Bottom 5 Campaigns by Donation Amount'',
          St_altair_chart (Amounts (bottom_5 example_loaded)),
          St_subheader ''Donation Frequency Distribution'',
          St_altair_chart (Counts (freq_counts example_loaded)),
          St_subheader ''Number of Donations by Donor Type'',
          St_bar_chart (Counts (donor_counts example_loaded)),
          St_subheader ''Total Donation Amount by Donor Type'',
          St_bar_chart (Amounts (donation_sums example_loaded)),
          St_header ''RFM Analysis (Recency, Frequency, Monetary)'',
          St_write,
          St_dataframe (Table (sort_by_Monetary_desc (rfm example_loaded)))] \<and>
   length (filter is_visual (projr (app strptime_dmY_HMS decimal (Some example_file)))) = 7 \<and>
   length (filter is_visual (projr (app strptime_dmY_HMS decimal (Some example_file)))) \<noteq> 5"
proof -
  have n: "example_loaded \<noteq> []" by (simp add: example_loaded_def)
  have a: "app strptime_dmY_HMS decimal (Some example_file) =
     Inr [St_success,
          St_subheader ''Total Donation Amount by Month'',
          St_bar_chart (Amounts [(''2024-03'', 21 / 2), (''2024-04'', 7)]),
          St_subheader ''Top 5 Campaigns by Donation Amount'',
          St_altair_chart (Amounts (top_5 example_loaded)),
          St_subheader ''Bottom 5 Campaigns by Donation Amount'',
          St_altair_chart (Amounts (bottom_5 example_loaded)),
          St_subheader ''Donation Frequency Distribution'',
          St_altair_chart (Counts (freq_counts example_loaded)),
          St_subheader ''Number of Donations by Donor Type'',
          St_bar_chart (Counts (donor_counts example_loaded)),
          St_subheader ''Total Donation Amount by Donor Type'',
          St_bar_chart (Amounts (donation_sums example_loaded)),
          St_header ''RFM Analysis (Recency, Frequency, Monetary)'',
          St_write,
          St_dataframe (Table (sort_by_Monetary_desc (rfm example_loaded)))]"
    using n by (simp add: app_def load_example dashboard_visuals_def month_examples)
  from load_example n a show ?thesis by simp
qed

end
